theory Spec2Isabelle
  imports Complex_Main
begin

section \<open>FTMap Enhanced: consensus clustering, feature extraction and ranking\<close>

text \<open>
  A shallow embedding of the clustering, feature-extraction and ranking code of
  \<^verbatim>\<open>ftmap_enhanced_modular/modules\<close> and
  \<^verbatim>\<open>ftmap_enhanced_final/src/ftmap_enhanced_algorithm.py\<close>.
  The consensus matrix and the random features are computed in a model of doubles, with
  rounding and overflow; elsewhere floats are idealised as reals, and a division whose
  divisor can be zero is written out with the value numpy gives it. Exceptions are values
  of \<open>error\<close>.
\<close>

datatype error =
  IndexError | ValueError | TypeError | KeyError | ZeroDivisionError | AttributeError | OverflowError

subsection \<open>Ranker: \<^verbatim>\<open>_calculate_feature_rankings\<close>\<close>

datatype category = Low | Medium | High

record feature_row =
  min_energy :: real
  probe_diversity :: int
  cluster_size :: int
  druggability_index :: real
  combined_score :: real

record ranked_row = feature_row +
  final_rank :: nat
  cluster_category :: category
  is_exceptional_hotspot :: bool

text \<open>\<^verbatim>\<open>df.loc[mask, col] = v\<close>: the column keeps its entry where the mask is false.\<close>

definition loc_assign :: "bool list \<Rightarrow> 'a \<Rightarrow> 'a list \<Rightarrow> 'a list" where
  "loc_assign msk v col = map (\<lambda>(m, x). if m then v else x) (zip msk col)"

text \<open>
  The three assignments of the source, in the source's order: the whole column is
  \<^verbatim>\<open>'Low'\<close>, then the rows with index \<open>\<ge> 0.7\<close> become \<^verbatim>\<open>'High'\<close>, then the rows
  with index \<open>\<ge> 0.5\<close> become \<^verbatim>\<open>'Medium'\<close>.
\<close>

definition cluster_category_column :: "real list \<Rightarrow> category list" where
  "cluster_category_column drug =
     (let col0 = replicate (length drug) Low;
          col1 = loc_assign (map (\<lambda>d. d \<ge> 0.7) drug) High col0;
          col2 = loc_assign (map (\<lambda>d. d \<ge> 0.5) drug) Medium col1
      in col2)"

text \<open>\<^verbatim>\<open>rank(ascending=False, method='dense')\<close>: one more than the number of distinct larger scores.\<close>

definition dense_rank_desc :: "real list \<Rightarrow> real \<Rightarrow> nat" where
  "dense_rank_desc scores s = Suc (length (remdups (filter (\<lambda>t. t > s) scores)))"

definition exceptional_flag :: "feature_row \<Rightarrow> bool" where
  "exceptional_flag r \<longleftrightarrow> min_energy r < - 7.0 \<and> probe_diversity r \<ge> 5 \<and> cluster_size r \<ge> 30"

definition calculate_feature_rankings :: "feature_row list \<Rightarrow> ranked_row list" where
  "calculate_feature_rankings rows =
     (if rows = [] then []
      else map (\<lambda>(r, c). feature_row.extend r
                  \<lparr> final_rank = dense_rank_desc (map combined_score rows) (combined_score r),
                    cluster_category = c,
                    is_exceptional_hotspot = exceptional_flag r \<rparr>)
             (zip rows (cluster_category_column (map druggability_index rows))))"

subsection \<open>Ranker: properties\<close>

lemma length_loc_assign:
  "length msk = length col \<Longrightarrow> length (loc_assign msk v col) = length col"
  by (simp add: loc_assign_def)

lemma nth_loc_assign:
  "length msk = length col \<Longrightarrow> i < length col \<Longrightarrow>
   loc_assign msk v col ! i = (if msk ! i then v else col ! i)"
  by (simp add: loc_assign_def)

lemma length_cluster_category_column:
  "length (cluster_category_column drug) = length drug"
  by (simp add: cluster_category_column_def Let_def length_loc_assign)

lemma nth_cluster_category_column:
  assumes "i < length drug"
  shows "cluster_category_column drug ! i = (if drug ! i \<ge> 0.5 then Medium else Low)"
  using assms
  by (simp add: cluster_category_column_def Let_def length_loc_assign nth_loc_assign)

text \<open>
  C1. The claim: index \<open>\<ge> 0.7\<close> gives High, \<open>\<ge> 0.5\<close> and \<open>< 0.7\<close> gives Medium, lower
  gives Low, and no cluster with index \<open>\<ge> 0.7\<close> is labelled Medium. The code assigns
  Medium after High, so a cluster with druggability index \<open>0.8\<close> ends as Medium.
\<close>

theorem category_of_high_index_is_medium:
  "map cluster_category
     (calculate_feature_rankings
        [\<lparr> min_energy = - 8, probe_diversity = 6, cluster_size = 40,
           druggability_index = 0.8, combined_score = 0.6 \<rparr>]) = [Medium]"
  by (simp add: calculate_feature_rankings_def cluster_category_column_def loc_assign_def
      feature_row.extend_def)

subsection \<open>Configuration: \<^verbatim>\<open>FTMapConfig.__init__\<close>\<close>

text \<open>
  The constructor takes no argument and checks nothing; the fields below are the entries
  of \<^verbatim>\<open>probe_molecules\<close> and \<^verbatim>\<open>clustering_config\<close> that the clustering code reads. A caller
  changes an entry by assigning to the dictionary (a record update here).
\<close>

record FTMapConfig =
  probe_molecules :: "string list"
  dbscan_eps :: real
  dbscan_min_samples :: nat
  hierarchical_n_clusters :: nat
  agglomerative_n_clusters :: nat
  min_cluster_size :: int
  consensus_threshold :: real
  weights :: "real list"

definition FTMapConfig_init :: FTMapConfig where
  "FTMapConfig_init =
     \<lparr> probe_molecules =
         [''acetone'', ''acetaldehyde'', ''acetamide'', ''acetonitrile'',
          ''benzaldehyde'', ''benzene'', ''cyclohexane'', ''dimethylether'',
          ''ethane'', ''ethanol'', ''formaldehyde'', ''formamide'',
          ''imidazole'', ''indole'', ''isopropanol'', ''methylamine'',
          ''phenol'', ''urea''],
       dbscan_eps = 2.0,
       dbscan_min_samples = 3,
       hierarchical_n_clusters = 10,
       agglomerative_n_clusters = 10,
       min_cluster_size = 5,
       consensus_threshold = 0.7,
       weights = [0.4, 0.3, 0.3] \<rparr>"

subsection \<open>Doubles\<close>

text \<open>
  A double is a real number, an infinity or NaN. The result of an operation on two numbers
  is rounded to the nearest double and becomes an infinity beyond the largest double
  (numpy only warns, and the module silences warnings with
  \<^verbatim>\<open>warnings.filterwarnings('ignore')\<close>). The rounding and the largest double are
  parameters of the model; the sign of a zero is not modelled.
\<close>

datatype npfloat = Fin real | PosInf | NegInf | NaN

record floats =
  round_to_nearest :: "real \<Rightarrow> real"
  max_float :: real

definition fl :: "floats \<Rightarrow> real \<Rightarrow> npfloat" where
  "fl F x =
     (let r = round_to_nearest F x
      in if max_float F < r then PosInf else if r < - max_float F then NegInf else Fin r)"

text \<open>The sign of a double that is not NaN, and the infinity of a sign (NaN for none).\<close>

definition sign_of :: "npfloat \<Rightarrow> real" where
  "sign_of x = (case x of Fin r \<Rightarrow> sgn r | PosInf \<Rightarrow> 1 | NegInf \<Rightarrow> - 1 | NaN \<Rightarrow> 0)"

definition infinity_of :: "real \<Rightarrow> npfloat" where
  "infinity_of s = (if 0 < s then PosInf else if s < 0 then NegInf else NaN)"

definition float_add :: "floats \<Rightarrow> npfloat \<Rightarrow> npfloat \<Rightarrow> npfloat" where
  "float_add F x y =
     (case x of
        NaN \<Rightarrow> NaN
      | Fin a \<Rightarrow> (case y of Fin b \<Rightarrow> fl F (a + b) | _ \<Rightarrow> y)
      | PosInf \<Rightarrow> (case y of NaN \<Rightarrow> NaN | NegInf \<Rightarrow> NaN | _ \<Rightarrow> PosInf)
      | NegInf \<Rightarrow> (case y of NaN \<Rightarrow> NaN | PosInf \<Rightarrow> NaN | _ \<Rightarrow> NegInf))"

definition float_mul :: "floats \<Rightarrow> npfloat \<Rightarrow> npfloat \<Rightarrow> npfloat" where
  "float_mul F x y =
     (if x = NaN \<or> y = NaN then NaN
      else case (x, y) of
             (Fin a, Fin b) \<Rightarrow> fl F (a * b)
           | _ \<Rightarrow> infinity_of (sign_of x * sign_of y))"

text \<open>
  Division: a number divided by zero is an infinity, \<open>0 / 0\<close> and the quotient of two
  infinities are NaN, a number divided by an infinity is zero.
\<close>

definition float_divide :: "floats \<Rightarrow> npfloat \<Rightarrow> npfloat \<Rightarrow> npfloat" where
  "float_divide F x y =
     (if x = NaN \<or> y = NaN then NaN
      else case (x, y) of
             (Fin a, Fin b) \<Rightarrow> if b = 0 then infinity_of (sgn a) else fl F (a / b)
           | (Fin a, _) \<Rightarrow> Fin 0
           | (_, Fin b) \<Rightarrow> infinity_of (sign_of x * (if b < 0 then - 1 else 1))
           | _ \<Rightarrow> NaN)"

text \<open>
  The quotient of two exact values (counts, sums of table entries), or what numpy stores
  when the divisor is zero.
\<close>

definition np_divide :: "real \<Rightarrow> real \<Rightarrow> npfloat" where
  "np_divide x s =
     (if s \<noteq> 0 then Fin (x / s) else if 0 < x then PosInf else if x < 0 then NegInf else NaN)"

text \<open>A comparison with NaN is false.\<close>

definition np_ge :: "npfloat \<Rightarrow> real \<Rightarrow> bool" where
  "np_ge x t = (case x of Fin r \<Rightarrow> t \<le> r | PosInf \<Rightarrow> True | NegInf \<Rightarrow> False | NaN \<Rightarrow> False)"

subsection \<open>ConsensusAggregator: \<^verbatim>\<open>_weighted_consensus_clustering\<close>, the matrix\<close>

type_synonym labels = "int list"
type_synonym matrix = "real list list"

text \<open>A \<^verbatim>\<open>for\<close> loop whose body may raise: the first error ends the loop.\<close>

fun for_each :: "'i list \<Rightarrow> ('i \<Rightarrow> 's \<Rightarrow> error + 's) \<Rightarrow> 's \<Rightarrow> error + 's" where
  "for_each [] f s = Inr s"
| "for_each (x # xs) f s = (case f x s of Inl e \<Rightarrow> Inl e | Inr s' \<Rightarrow> for_each xs f s')"

text \<open>Reading a numpy array at an index in \<open>0..\<close>: out of range raises.\<close>

definition np_get :: "'a list \<Rightarrow> nat \<Rightarrow> error + 'a" where
  "np_get xs i = (if i < length xs then Inr (xs ! i) else Inl IndexError)"

text \<open>\<^verbatim>\<open>np.zeros((n, n))\<close>, as an array of doubles and as an array of exact counts.\<close>

definition float_zeros :: "nat \<Rightarrow> npfloat list list" where
  "float_zeros n = replicate n (replicate n (Fin 0))"

definition zeros :: "nat \<Rightarrow> matrix" where
  "zeros n = replicate n (replicate n 0)"

text \<open>
  \<^verbatim>\<open>m[i, j] += w\<close>. The same three nested loops occur twice in the source: in
  \<^verbatim>\<open>clustering_analysis.py\<close> they add a weight to a double, in
  \<^verbatim>\<open>ftmap_enhanced_algorithm.py\<close> they add \<open>1\<close> to a count; the addition is a parameter.
\<close>

definition add_at :: "('a \<Rightarrow> 'w \<Rightarrow> 'a) \<Rightarrow> 'a list list \<Rightarrow> nat \<Rightarrow> nat \<Rightarrow> 'w \<Rightarrow> 'a list list" where
  "add_at add m i j w = m[i := (m ! i)[j := add (m ! i ! j) w]]"

text \<open>The body of the innermost loop, for one pair \<open>i < j\<close>.\<close>

definition pair_step ::
  "('a \<Rightarrow> 'w \<Rightarrow> 'a) \<Rightarrow> labels \<Rightarrow> 'w \<Rightarrow> nat \<Rightarrow> nat \<Rightarrow> 'a list list \<Rightarrow> error + 'a list list" where
  "pair_step add ls w i j m =
     (case np_get ls i of Inl e \<Rightarrow> Inl e | Inr li \<Rightarrow>
      case np_get ls j of Inl e \<Rightarrow> Inl e | Inr lj \<Rightarrow>
        Inr (if li = lj \<and> li \<noteq> - 1 then add_at add (add_at add m i j w) j i w else m))"

text \<open>The two index loops for one label set and its weight.\<close>

definition accumulate_labels ::
  "('a \<Rightarrow> 'w \<Rightarrow> 'a) \<Rightarrow> nat \<Rightarrow> labels \<times> 'w \<Rightarrow> 'a list list \<Rightarrow> error + 'a list list" where
  "accumulate_labels add n lw m =
     for_each [0..<n]
       (\<lambda>i. for_each [Suc i..<n] (\<lambda>j. pair_step add (fst lw) (snd lw) i j)) m"

text \<open>
  The consensus matrix after \<^verbatim>\<open>consensus_matrix /= sum(weights)\<close>. \<^verbatim>\<open>label_sets[0]\<close> raises
  on an empty list; \<^verbatim>\<open>zip\<close> stops at the shorter of the two lists; the weights are numbers.
  \<^verbatim>\<open>sum\<close> is the builtin of the interpreter, applied to all weights: it adds from left to
  right up to CPython 3.11 and compensates the rounding errors from CPython 3.12 on (the
  repository asks for Python 3.8 or later), so its result is a parameter, \<open>py_sum\<close>.
\<close>

definition consensus_matrix ::
  "floats \<Rightarrow> (real list \<Rightarrow> npfloat) \<Rightarrow> labels list \<Rightarrow> real list \<Rightarrow> error + npfloat list list" where
  "consensus_matrix F py_sum label_sets ws =
     (case label_sets of [] \<Rightarrow> Inl IndexError
      | first # _ \<Rightarrow>
          (let n_samples = length first in
           case for_each (zip label_sets ws)
                  (accumulate_labels (\<lambda>x w. float_add F x (Fin w)) n_samples)
                  (float_zeros n_samples) of
             Inl e \<Rightarrow> Inl e
           | Inr m \<Rightarrow> Inr (map (map (\<lambda>x. float_divide F x (py_sum ws))) m)))"

text \<open>\<^verbatim>\<open>(consensus_matrix >= threshold).astype(int)\<close> and \<^verbatim>\<open>1 - consensus_matrix\<close>.\<close>

definition threshold_matrix :: "real \<Rightarrow> npfloat list list \<Rightarrow> int list list" where
  "threshold_matrix t m = map (map (\<lambda>x. if np_ge x t then 1 else 0)) m"

definition distance_matrix :: "int list list \<Rightarrow> int list list" where
  "distance_matrix a = map (map (\<lambda>x. 1 - x)) a"

subsection \<open>Library: agglomerative clustering of a precomputed distance matrix\<close>

text \<open>
  scikit-learn is not part of the repository. The call
  \<^verbatim>\<open>AgglomerativeClustering(n_clusters=None, distance_threshold=t, linkage='average',
  metric='precomputed').fit_predict(D)\<close> is modelled by its documented behaviour: the
  entries of \<open>D\<close> above the diagonal are the distances; every pose starts as a group of
  its own; the two groups with the smallest average pairwise distance are merged, again
  and again, and groups whose linkage distance is at or above \<open>t\<close> are not merged; fewer
  than two samples raise \<^verbatim>\<open>ValueError\<close>. Which of several equally close pairs is merged
  first is the library's choice, a parameter here (\<open>tie\<close>); the labels number the
  groups in the order of their smallest member, which is this model's own numbering.
\<close>

definition pair_dist :: "int list list \<Rightarrow> nat \<Rightarrow> nat \<Rightarrow> real" where
  "pair_dist d a b = real_of_int (d ! min a b ! max a b)"

definition average_linkage :: "int list list \<Rightarrow> nat list \<Rightarrow> nat list \<Rightarrow> real" where
  "average_linkage d A B =
     sum_list (map (\<lambda>a. sum_list (map (\<lambda>b. pair_dist d a b) B)) A)
       / (real (length A) * real (length B))"

definition cluster_pairs :: "nat \<Rightarrow> (nat \<times> nat) list" where
  "cluster_pairs k = concat (map (\<lambda>p. map (\<lambda>q. (p, q)) [Suc p..<k]) [0..<k])"

definition closest_pairs :: "int list list \<Rightarrow> nat list list \<Rightarrow> (nat \<times> nat) list" where
  "closest_pairs d P =
     (let ps = cluster_pairs (length P) in
      filter (\<lambda>(p, q). \<forall>(p', q') \<in> set ps.
                average_linkage d (P ! p) (P ! q) \<le> average_linkage d (P ! p') (P ! q')) ps)"

definition pick_pair ::
  "((nat \<times> nat) list \<Rightarrow> nat \<times> nat) \<Rightarrow> int list list \<Rightarrow> nat list list \<Rightarrow> (nat \<times> nat) option" where
  "pick_pair tie d P =
     (case closest_pairs d P of
        [] \<Rightarrow> None
      | c # cs \<Rightarrow> Some (if tie (c # cs) \<in> set (c # cs) then tie (c # cs) else c))"

definition merge_clusters :: "nat list list \<Rightarrow> nat \<Rightarrow> nat \<Rightarrow> nat list list" where
  "merge_clusters P p q = take q (P[p := P ! p @ P ! q]) @ drop (Suc q) P"

lemma closest_pairs_bounds:
  "(p, q) \<in> set (closest_pairs d P) \<Longrightarrow> p < q \<and> q < length P"
  by (auto simp: closest_pairs_def cluster_pairs_def Let_def)

lemma pick_pair_bounds:
  "pick_pair tie d P = Some (p, q) \<Longrightarrow> p < q \<and> q < length P"
proof -
  assume a: "pick_pair tie d P = Some (p, q)"
  then have "(p, q) \<in> set (closest_pairs d P)"
    by (auto simp: pick_pair_def split: list.splits if_splits)
  then show ?thesis by (rule closest_pairs_bounds)
qed

lemma length_merge_clusters:
  "p < q \<Longrightarrow> q < length P \<Longrightarrow> Suc (length (merge_clusters P p q)) = length P"
  by (simp add: merge_clusters_def)

function agglomerate ::
  "((nat \<times> nat) list \<Rightarrow> nat \<times> nat) \<Rightarrow> int list list \<Rightarrow> real \<Rightarrow> nat list list \<Rightarrow> nat list list" where
  "agglomerate tie d t P =
     (case pick_pair tie d P of
        None \<Rightarrow> P
      | Some (p, q) \<Rightarrow>
          if average_linkage d (P ! p) (P ! q) < t
          then agglomerate tie d t (merge_clusters P p q)
          else P)"
  by pat_completeness auto
termination
proof (relation "measure (\<lambda>(tie, d, t, P). length P)")
  show "wf (measure (\<lambda>(tie, d, t, P). length P))" by simp
next
  fix tie :: "(nat \<times> nat) list \<Rightarrow> nat \<times> nat" and d t and P :: "nat list list" and x2 p q
  assume "pick_pair tie d P = Some x2" "(p, q) = x2"
  then have "p < q \<and> q < length P" by (auto dest: pick_pair_bounds)
  then have "Suc (length (merge_clusters P p q)) = length P"
    by (simp add: length_merge_clusters)
  then show "((tie, d, t, merge_clusters P p q), (tie, d, t, P))
        \<in> measure (\<lambda>(tie, d, t, P). length P)"
    by simp
qed

definition find_cluster :: "nat list list \<Rightarrow> nat \<Rightarrow> nat" where
  "find_cluster P i = length (takeWhile (\<lambda>A. i \<notin> set A) P)"

definition labels_of :: "nat \<Rightarrow> nat list list \<Rightarrow> labels" where
  "labels_of n P = map (\<lambda>i. int (find_cluster P i)) [0..<n]"

definition agglomerative_precomputed ::
  "((nat \<times> nat) list \<Rightarrow> nat \<times> nat) \<Rightarrow> real \<Rightarrow> int list list \<Rightarrow> error + labels" where
  "agglomerative_precomputed tie t d =
     (if length d < 2 then Inl ValueError
      else Inr (labels_of (length d)
                  (agglomerate tie d t (map (\<lambda>i. [i]) [0..<length d]))))"

subsection \<open>ConsensusAggregator: \<^verbatim>\<open>_weighted_consensus_clustering\<close>\<close>

definition weighted_consensus_clustering ::
  "floats \<Rightarrow> (real list \<Rightarrow> npfloat) \<Rightarrow> ((nat \<times> nat) list \<Rightarrow> nat \<times> nat) \<Rightarrow> FTMapConfig
     \<Rightarrow> labels list \<Rightarrow> real list \<Rightarrow> error + labels" where
  "weighted_consensus_clustering F py_sum tie cfg label_sets ws =
     (case consensus_matrix F py_sum label_sets ws of
        Inl e \<Rightarrow> Inl e
      | Inr cm \<Rightarrow>
          agglomerative_precomputed tie 0.5
            (distance_matrix (threshold_matrix (consensus_threshold cfg) cm)))"

subsection \<open>Poses, and what the code takes from its runtime and its libraries\<close>

record DockingPose =
  probe_name :: string
  pose_id :: int
  coordinates :: "real \<times> real \<times> real"
  affinity :: real
  rmsd_lb :: real
  rmsd_ub :: real
  rotation :: "real \<times> real \<times> real"

text \<open>
  Results that are not determined by the repository's code are parameters:
  Python's (per-process salted) \<^verbatim>\<open>hash\<close> of a string, the order in which a \<^verbatim>\<open>set\<close> of labels
  is iterated (a rank of the labels), the labels that scikit-learn's DBSCAN and Ward
  agglomeration assign, the library's order among equally close pairs, the arithmetic of
  doubles and the builtin \<^verbatim>\<open>sum\<close>.
\<close>

record runtime =
  float_arithmetic :: floats
  builtin_sum :: "real list \<Rightarrow> npfloat"
  str_hash :: "string \<Rightarrow> int"
  set_rank :: "int \<Rightarrow> nat"
  DBSCAN_fit_predict :: "real \<Rightarrow> nat \<Rightarrow> real list list \<Rightarrow> labels"
  ward_labels :: "nat \<Rightarrow> real list list \<Rightarrow> labels"
  tie_order :: "(nat \<times> nat) list \<Rightarrow> nat \<times> nat"

text \<open>\<^verbatim>\<open>np.mean\<close>; the modelled code applies it to non-empty lists only.\<close>

definition np_mean :: "real list \<Rightarrow> real" where
  "np_mean xs = sum_list xs / real (length xs)"

text \<open>
  \<^verbatim>\<open>StandardScaler().fit_transform\<close>: every column is centred and divided by its (population)
  standard deviation, a zero deviation counting as one.
\<close>

definition np_std :: "real list \<Rightarrow> real" where
  "np_std xs = sqrt (np_mean (map (\<lambda>x. (x - np_mean xs)\<^sup>2) xs))"

definition StandardScaler_fit_transform :: "real list list \<Rightarrow> real list list" where
  "StandardScaler_fit_transform X =
     map (\<lambda>row. map (\<lambda>k. let col = map (\<lambda>r. r ! k) X;
                               scale = (if np_std col = 0 then 1 else np_std col)
                           in (row ! k - np_mean col) / scale)
                    [0..<length row]) X"

text \<open>
  \<^verbatim>\<open>silhouette_score(X, labels)\<close> is only printed, but it raises \<^verbatim>\<open>ValueError\<close> unless the
  number of distinct labels is between 2 and \<open>n_samples - 1\<close>.
\<close>

definition silhouette_score_check :: "nat \<Rightarrow> labels \<Rightarrow> error + unit" where
  "silhouette_score_check n_samples ls =
     (let n_labels = length (remdups ls)
      in if 1 < n_labels \<and> n_labels < n_samples then Inr () else Inl ValueError)"

text \<open>
  \<^verbatim>\<open>AgglomerativeClustering(n_clusters=k, linkage='ward').fit_predict(X)\<close>: fewer than two
  samples, a non-positive \<open>k\<close>, or more clusters than samples raise \<^verbatim>\<open>ValueError\<close>.
\<close>

definition AgglomerativeClustering_ward :: "runtime \<Rightarrow> nat \<Rightarrow> real list list \<Rightarrow> error + labels" where
  "AgglomerativeClustering_ward rt k X =
     (if length X < 2 \<or> k < 1 \<or> length X < k then Inl ValueError
      else Inr (ward_labels rt k X))"

subsection \<open>ClusteringEnsemble: \<^verbatim>\<open>ClusteringAnalyzer\<close>\<close>

definition prepare_clustering_features :: "runtime \<Rightarrow> DockingPose list \<Rightarrow> real list list" where
  "prepare_clustering_features rt poses =
     StandardScaler_fit_transform
       (map (\<lambda>pose. case coordinates pose of (x, y, z) \<Rightarrow>
               [x, y, z, affinity pose,
                real_of_int (str_hash rt (probe_name pose) mod 100),
                (rmsd_lb pose + rmsd_ub pose) / 2]) poses)"

definition dbscan_clustering :: "runtime \<Rightarrow> FTMapConfig \<Rightarrow> real list list \<Rightarrow> error + labels" where
  "dbscan_clustering rt cfg features =
     (let ls = DBSCAN_fit_predict rt (dbscan_eps cfg) (dbscan_min_samples cfg) features
      in if 1 < length (remdups ls)
         then (case silhouette_score_check (length features) ls of
                 Inl e \<Rightarrow> Inl e | Inr u \<Rightarrow> Inr ls)
         else Inr ls)"

definition hierarchical_clustering :: "runtime \<Rightarrow> FTMapConfig \<Rightarrow> real list list \<Rightarrow> error + labels" where
  "hierarchical_clustering rt cfg features =
     (case AgglomerativeClustering_ward rt (hierarchical_n_clusters cfg) features of
        Inl e \<Rightarrow> Inl e
      | Inr ls \<Rightarrow>
          (case silhouette_score_check (length features) ls of
             Inl e \<Rightarrow> Inl e | Inr u \<Rightarrow> Inr ls))"

definition agglomerative_clustering :: "runtime \<Rightarrow> FTMapConfig \<Rightarrow> real list list \<Rightarrow> error + labels" where
  "agglomerative_clustering rt cfg features =
     (case AgglomerativeClustering_ward rt (agglomerative_n_clusters cfg) features of
        Inl e \<Rightarrow> Inl e
      | Inr ls \<Rightarrow>
          (case silhouette_score_check (length features) ls of
             Inl e \<Rightarrow> Inl e | Inr u \<Rightarrow> Inr ls))"

definition ensemble_clustering :: "runtime \<Rightarrow> FTMapConfig \<Rightarrow> real list list \<Rightarrow> error + labels" where
  "ensemble_clustering rt cfg features =
     (case dbscan_clustering rt cfg features of Inl e \<Rightarrow> Inl e | Inr dbscan_labels \<Rightarrow>
      case hierarchical_clustering rt cfg features of Inl e \<Rightarrow> Inl e | Inr hier_labels \<Rightarrow>
      case agglomerative_clustering rt cfg features of Inl e \<Rightarrow> Inl e | Inr agglo_labels \<Rightarrow>
      case weighted_consensus_clustering (float_arithmetic rt) (builtin_sum rt) (tie_order rt) cfg
             [dbscan_labels, hier_labels, agglo_labels] (weights cfg) of
        Inl e \<Rightarrow> Inl e
      | Inr consensus_labels \<Rightarrow>
          if 1 < length (remdups consensus_labels)
          then (case silhouette_score_check (length features) consensus_labels of
                  Inl e \<Rightarrow> Inl e | Inr u \<Rightarrow> Inr consensus_labels)
          else Inr consensus_labels)"

record Cluster =
  cluster_id :: int
  poses_indices :: "nat list"
  center :: "real \<times> real \<times> real"
  size' :: nat
  density :: real
  avg_affinity :: real
  probe_diversity :: nat
  quality_score :: real

definition calculate_cluster_center :: "DockingPose list \<Rightarrow> real \<times> real \<times> real" where
  "calculate_cluster_center poses =
     (np_mean (map (\<lambda>p. fst (coordinates p)) poses),
      np_mean (map (\<lambda>p. fst (snd (coordinates p))) poses),
      np_mean (map (\<lambda>p. snd (snd (coordinates p))) poses))"

definition euclidean :: "real \<times> real \<times> real \<Rightarrow> real \<times> real \<times> real \<Rightarrow> real" where
  "euclidean u v =
     (case u of (x1, y1, z1) \<Rightarrow> case v of (x2, y2, z2) \<Rightarrow>
        sqrt ((x1 - x2)\<^sup>2 + (y1 - y2)\<^sup>2 + (z1 - z2)\<^sup>2))"

text \<open>\<^verbatim>\<open>pdist\<close>: the distances of all pairs, each pair once.\<close>

fun pdist :: "(real \<times> real \<times> real) list \<Rightarrow> real list" where
  "pdist [] = []"
| "pdist (u # us) = map (euclidean u) us @ pdist us"

definition calculate_cluster_density :: "DockingPose list \<Rightarrow> real" where
  "calculate_cluster_density poses =
     (if length poses < 2 then 0.0
      else real (length poses) / (np_mean (pdist (map coordinates poses)) + 1 / 1000000))"

definition calculate_cluster_quality :: "FTMapConfig \<Rightarrow> DockingPose list \<Rightarrow> error + real" where
  "calculate_cluster_quality cfg poses =
     (if length poses = 0 then Inr 0.0
      else
        let size_score = min (real (length poses) / 10.0) 1.0;
            energy_score = 1.0 / (1.0 + \<bar>np_mean (map affinity poses)\<bar>)
        in if length (probe_molecules cfg) = 0 then Inl ZeroDivisionError
           else
             let diversity_score =
                   real (length (remdups (map probe_name poses)))
                     / real (length (probe_molecules cfg))
             in Inr (0.4 * size_score + 0.4 * energy_score + 0.2 * diversity_score))"

text \<open>A loop that appends to a list, with \<^verbatim>\<open>continue\<close> (\<open>None\<close>) and exceptions.\<close>

fun collect :: "('a \<Rightarrow> error + 'b option) \<Rightarrow> 'a list \<Rightarrow> error + 'b list" where
  "collect f [] = Inr []"
| "collect f (x # xs) =
     (case f x of
        Inl e \<Rightarrow> Inl e
      | Inr None \<Rightarrow> collect f xs
      | Inr (Some y) \<Rightarrow> (case collect f xs of Inl e \<Rightarrow> Inl e | Inr ys \<Rightarrow> Inr (y # ys)))"

text \<open>\<^verbatim>\<open>[poses[i] for i in cluster_indices]\<close>\<close>

fun select_poses :: "'a list \<Rightarrow> nat list \<Rightarrow> error + 'a list" where
  "select_poses poses [] = Inr []"
| "select_poses poses (i # is) =
     (case np_get poses i of
        Inl e \<Rightarrow> Inl e
      | Inr p \<Rightarrow> (case select_poses poses is of Inl e \<Rightarrow> Inl e | Inr ps \<Rightarrow> Inr (p # ps)))"

definition make_cluster :: "FTMapConfig \<Rightarrow> DockingPose list \<Rightarrow> labels \<Rightarrow> int \<Rightarrow> error + Cluster option" where
  "make_cluster cfg poses ls label =
     (if label = - 1 then Inr None
      else
        let cluster_indices = map fst (filter (\<lambda>(i, l). l = label) (zip [0..<length ls] ls))
        in case select_poses poses cluster_indices of
             Inl e \<Rightarrow> Inl e
           | Inr cluster_poses \<Rightarrow>
               (case calculate_cluster_quality cfg cluster_poses of
                  Inl e \<Rightarrow> Inl e
                | Inr quality \<Rightarrow>
                    Inr (Some \<lparr> cluster_id = label,
                                poses_indices = cluster_indices,
                                center = calculate_cluster_center cluster_poses,
                                size' = length cluster_poses,
                                density = calculate_cluster_density cluster_poses,
                                avg_affinity = np_mean (map affinity cluster_poses),
                                probe_diversity = length (remdups (map probe_name cluster_poses)),
                                quality_score = quality \<rparr>)))"

text \<open>
  \<^verbatim>\<open>clusters.sort(key=lambda c: c.quality_score, reverse=True)\<close>: a stable sort by
  decreasing quality.
\<close>

definition create_cluster_objects ::
  "runtime \<Rightarrow> FTMapConfig \<Rightarrow> DockingPose list \<Rightarrow> labels \<Rightarrow> error + Cluster list" where
  "create_cluster_objects rt cfg poses ls =
     (let unique_labels = sort_key (set_rank rt) (remdups ls)
      in case collect (make_cluster cfg poses ls) unique_labels of
           Inl e \<Rightarrow> Inl e
         | Inr clusters \<Rightarrow> Inr (sort_key (\<lambda>c. - quality_score c) clusters))"

definition cluster_poses ::
  "runtime \<Rightarrow> FTMapConfig \<Rightarrow> DockingPose list \<Rightarrow> string \<Rightarrow> error + Cluster list" where
  "cluster_poses rt cfg poses method =
     (if length poses < 3 then Inr []
      else
        let features_matrix = prepare_clustering_features rt poses
        in case (if method = ''dbscan'' then dbscan_clustering rt cfg features_matrix
                 else if method = ''hierarchical'' then hierarchical_clustering rt cfg features_matrix
                 else if method = ''ensemble'' then ensemble_clustering rt cfg features_matrix
                 else Inl ValueError) of
             Inl e \<Rightarrow> Inl e
           | Inr cluster_labels \<Rightarrow>
               (case create_cluster_objects rt cfg poses cluster_labels of
                  Inl e \<Rightarrow> Inl e
                | Inr clusters \<Rightarrow>
                    Inr (filter (\<lambda>c. min_cluster_size cfg \<le> int (size' c)) clusters)))"

subsection \<open>FeatureExtractor: the probe table and the feature dictionaries\<close>

record ProbeProperties =
  molecular_weight :: real
  logp :: real
  hbd :: int
  hba :: int
  psa :: real
  dipole :: real
  aromatic :: bool
  polar :: bool
  charged :: bool

definition ProbeProperties_init ::
  "real \<Rightarrow> real \<Rightarrow> int \<Rightarrow> int \<Rightarrow> real \<Rightarrow> real \<Rightarrow> bool \<Rightarrow> bool \<Rightarrow> bool \<Rightarrow> ProbeProperties" where
  "ProbeProperties_init mw lp d a ps dip ar po ch =
     \<lparr> molecular_weight = mw, logp = lp, hbd = d, hba = a, psa = ps, dipole = dip,
       aromatic = ar, polar = po, charged = ch \<rparr>"

definition initialize_enhanced_probe_properties :: "(string \<times> ProbeProperties) list" where
  "initialize_enhanced_probe_properties =
     [(''ethanol'', ProbeProperties_init 46.07 (- 0.31) 1 1 20.23 1.69 False True False),
      (''isopropanol'', ProbeProperties_init 60.10 0.05 1 1 20.23 1.66 False True False),
      (''acetone'', ProbeProperties_init 58.08 (- 0.24) 0 1 17.07 2.88 False True False),
      (''benzene'', ProbeProperties_init 78.11 2.13 0 0 0.0 0.0 True False False),
      (''phenol'', ProbeProperties_init 94.11 1.46 1 1 20.23 1.45 True True False),
      (''imidazole'', ProbeProperties_init 68.08 (- 0.76) 1 2 28.68 3.61 True True True),
      (''indole'', ProbeProperties_init 117.15 2.14 1 1 15.79 2.11 True True False),
      (''urea'', ProbeProperties_init 60.06 (- 2.11) 2 1 69.11 4.56 False True False),
      (''acetamide'', ProbeProperties_init 59.07 (- 1.26) 1 1 43.09 3.76 False True False),
      (''water'', ProbeProperties_init 18.02 (- 1.38) 2 1 0.0 1.85 False True False),
      (''methylamine'', ProbeProperties_init 31.06 (- 0.57) 2 1 26.02 1.31 False True True),
      (''cyclohexane'', ProbeProperties_init 84.16 3.44 0 0 0.0 0.0 False False False),
      (''ethane'', ProbeProperties_init 30.07 1.81 0 0 0.0 0.0 False False False),
      (''acetaldehyde'', ProbeProperties_init 44.05 0.45 0 1 17.07 2.75 False True False),
      (''dmf'', ProbeProperties_init 73.09 (- 1.01) 0 1 20.31 3.82 False True False),
      (''dimethylether'', ProbeProperties_init 46.07 0.10 0 1 9.23 1.30 False True False),
      (''acetonitrile'', ProbeProperties_init 41.05 (- 0.34) 0 1 23.79 3.92 False True False),
      (''benzaldehyde'', ProbeProperties_init 106.12 1.48 0 1 17.07 3.0 True True False)]"

text \<open>A dictionary of features, in insertion order.\<close>

type_synonym feature_dict = "(string \<times> npfloat) list"

text \<open>\<^verbatim>\<open>float(np.mean(xs))\<close>: NaN for an empty list (no exception).\<close>

definition np_mean_f :: "real list \<Rightarrow> npfloat" where
  "np_mean_f xs = np_divide (sum_list xs) (real (length xs))"

subsection \<open>FeatureExtractor: \<^verbatim>\<open>_extract_enhanced_chemical_features\<close>\<close>

record chem_acc =
  hydrophobic_count :: nat
  polar_count :: nat
  aromatic_count :: nat
  charged_count :: nat
  molecular_weights :: "real list"
  logp_values :: "real list"
  polar_surface_areas :: "real list"

text \<open>The body of the loop over the probe names: a known probe, or the defaults.\<close>

definition chem_step :: "(string \<rightharpoonup> ProbeProperties) \<Rightarrow> string \<Rightarrow> chem_acc \<Rightarrow> chem_acc" where
  "chem_step table name acc =
     (case table name of
        Some props \<Rightarrow>
          acc\<lparr> hydrophobic_count :=
                 (if \<not> polar props \<and> \<not> aromatic props then hydrophobic_count acc + 1
                  else hydrophobic_count acc),
               polar_count := (if polar props then polar_count acc + 1 else polar_count acc),
               aromatic_count :=
                 (if aromatic props then aromatic_count acc + 1 else aromatic_count acc),
               charged_count :=
                 (if charged props then charged_count acc + 1 else charged_count acc),
               molecular_weights := molecular_weights acc @ [molecular_weight props],
               logp_values := logp_values acc @ [logp props],
               polar_surface_areas := polar_surface_areas acc @ [psa props] \<rparr>
      | None \<Rightarrow>
          acc\<lparr> molecular_weights := molecular_weights acc @ [50.0],
               logp_values := logp_values acc @ [0.0],
               polar_surface_areas := polar_surface_areas acc @ [20.0] \<rparr>)"

definition chem_init :: chem_acc where
  "chem_init =
     \<lparr> hydrophobic_count = 0, polar_count = 0, aromatic_count = 0, charged_count = 0,
       molecular_weights = [], logp_values = [], polar_surface_areas = [] \<rparr>"

definition extract_enhanced_chemical_features ::
  "(string \<rightharpoonup> ProbeProperties) \<Rightarrow> DockingPose list \<Rightarrow> feature_dict" where
  "extract_enhanced_chemical_features table poses =
     (let probe_names = map probe_name poses;
          acc = fold (chem_step table) probe_names chem_init
      in [(''probe_diversity'', Fin (real (length (remdups probe_names)))),
          (''hydrophobic_count'', Fin (real (hydrophobic_count acc))),
          (''polar_count'', Fin (real (polar_count acc))),
          (''aromatic_count'', Fin (real (aromatic_count acc))),
          (''charged_count'', Fin (real (charged_count acc))),
          (''molecular_weight_avg'', np_mean_f (molecular_weights acc)),
          (''logp_avg'', np_mean_f (logp_values acc)),
          (''polar_surface_area'', np_mean_f (polar_surface_areas acc))])"

subsection \<open>FeatureExtractor: \<^verbatim>\<open>_extract_enhanced_interaction_features\<close>\<close>

record inter_acc =
  h_bond_donors :: int
  h_bond_acceptors :: int
  vdw_interactions :: real
  electrostatic_potential :: real
  pi_stacking_potential :: real
  hydrophobic_surface :: real

text \<open>The body of the loop over the poses: an unknown probe changes nothing.\<close>

definition inter_step :: "(string \<rightharpoonup> ProbeProperties) \<Rightarrow> DockingPose \<Rightarrow> inter_acc \<Rightarrow> inter_acc" where
  "inter_step table pose acc =
     (case table (probe_name pose) of
        Some props \<Rightarrow>
          acc\<lparr> h_bond_donors := h_bond_donors acc + hbd props,
               h_bond_acceptors := h_bond_acceptors acc + hba props,
               vdw_interactions := vdw_interactions acc + molecular_weight props * 0.01,
               electrostatic_potential := electrostatic_potential acc + dipole props,
               pi_stacking_potential :=
                 (if aromatic props then pi_stacking_potential acc + 1.0
                  else pi_stacking_potential acc),
               hydrophobic_surface :=
                 (if \<not> polar props \<and> \<not> aromatic props
                  then hydrophobic_surface acc + molecular_weight props * 0.1
                  else hydrophobic_surface acc) \<rparr>
      | None \<Rightarrow> acc)"

definition inter_init :: inter_acc where
  "inter_init =
     \<lparr> h_bond_donors = 0, h_bond_acceptors = 0, vdw_interactions = 0.0,
       electrostatic_potential = 0.0, pi_stacking_potential = 0.0, hydrophobic_surface = 0.0 \<rparr>"

definition extract_enhanced_interaction_features ::
  "(string \<rightharpoonup> ProbeProperties) \<Rightarrow> DockingPose list \<Rightarrow> feature_dict" where
  "extract_enhanced_interaction_features table poses =
     (let acc = fold (inter_step table) poses inter_init;
          num_poses = length poses;
          vdw = (if 0 < num_poses then vdw_interactions acc / real num_poses
                 else vdw_interactions acc);
          hs = (if 0 < num_poses then hydrophobic_surface acc / real num_poses
                else hydrophobic_surface acc)
      in [(''hydrogen_bond_donors'', Fin (real_of_int (h_bond_donors acc))),
          (''hydrogen_bond_acceptors'', Fin (real_of_int (h_bond_acceptors acc))),
          (''vdw_interactions'', Fin vdw),
          (''electrostatic_potential'', Fin (electrostatic_potential acc)),
          (''pi_stacking_potential'', Fin (pi_stacking_potential acc)),
          (''hydrophobic_surface'', Fin hs)])"

text \<open>
  Notions used to state what the two loops compute: the descriptor of a probe, or its
  documented default; the number of known probes with a property; the descriptors of the
  known probes of a cluster. The last definition follows the words of the specification
  (every unknown probe counts with the default molecular weight), for comparison.
\<close>

definition mw_or_default :: "(string \<rightharpoonup> ProbeProperties) \<Rightarrow> string \<Rightarrow> real" where
  "mw_or_default table name = (case table name of Some props \<Rightarrow> molecular_weight props | None \<Rightarrow> 50.0)"

definition logp_or_default :: "(string \<rightharpoonup> ProbeProperties) \<Rightarrow> string \<Rightarrow> real" where
  "logp_or_default table name = (case table name of Some props \<Rightarrow> logp props | None \<Rightarrow> 0.0)"

definition psa_or_default :: "(string \<rightharpoonup> ProbeProperties) \<Rightarrow> string \<Rightarrow> real" where
  "psa_or_default table name = (case table name of Some props \<Rightarrow> psa props | None \<Rightarrow> 20.0)"

definition count_known :: "(string \<rightharpoonup> ProbeProperties) \<Rightarrow> (ProbeProperties \<Rightarrow> bool) \<Rightarrow> string list \<Rightarrow> nat" where
  "count_known table P names =
     length (filter (\<lambda>name. case table name of Some props \<Rightarrow> P props | None \<Rightarrow> False) names)"

definition known_props :: "(string \<rightharpoonup> ProbeProperties) \<Rightarrow> DockingPose list \<Rightarrow> ProbeProperties list" where
  "known_props table poses = List.map_filter (\<lambda>pose. table (probe_name pose)) poses"

definition is_hydrophobic :: "ProbeProperties \<Rightarrow> bool" where
  "is_hydrophobic props \<longleftrightarrow> \<not> polar props \<and> \<not> aromatic props"

definition vdw_with_default_weight :: "(string \<rightharpoonup> ProbeProperties) \<Rightarrow> DockingPose list \<Rightarrow> npfloat" where
  "vdw_with_default_weight table poses =
     np_mean_f (map (\<lambda>pose. mw_or_default table (probe_name pose) * 0.01) poses)"

subsection \<open>FeatureExtractor: energy, spatial and consensus features\<close>

text \<open>
  The convex hull (\<^verbatim>\<open>scipy.spatial.ConvexHull\<close>: volume and area, or an exception) and the
  eigenvalues of a matrix (\<^verbatim>\<open>np.linalg.eigvals\<close>, or an exception) are library results,
  parameters here; \<open>None\<close> is the exception that the source catches.
\<close>

record geometry_lib =
  ConvexHull :: "(real \<times> real \<times> real) list \<Rightarrow> (real \<times> real) option"
  eigvals :: "real list list \<Rightarrow> real list option"

text \<open>\<^verbatim>\<open>np.min\<close> of an empty array raises \<^verbatim>\<open>ValueError\<close>.\<close>

definition extract_energy_features :: "real list \<Rightarrow> error + feature_dict" where
  "extract_energy_features affinities =
     (if affinities = [] then Inl ValueError
      else Inr [(''mean_affinity'', Fin (np_mean affinities)),
                (''std_affinity'', Fin (np_std affinities)),
                (''min_affinity'', Fin (Min (set affinities))),
                (''max_affinity'', Fin (Max (set affinities))),
                (''energy_range'', Fin (Max (set affinities) - Min (set affinities)))])"

text \<open>\<^verbatim>\<open>np.max(coordinates, axis=0) - np.min(coordinates, axis=0)\<close>, for a non-empty list.\<close>

definition dimensions :: "(real \<times> real \<times> real) list \<Rightarrow> real list" where
  "dimensions coords =
     map (\<lambda>axis. Max (set (map axis coords)) - Min (set (map axis coords)))
       [fst, fst \<circ> snd, snd \<circ> snd]"

definition approximate_volume :: "(real \<times> real \<times> real) list \<Rightarrow> real" where
  "approximate_volume coords =
     (if length coords < 2 then 0.0 else prod_list (dimensions coords))"

definition approximate_surface_area :: "(real \<times> real \<times> real) list \<Rightarrow> real" where
  "approximate_surface_area coords =
     (if length coords < 2 then 0.0
      else let l = dimensions coords ! 0; w = dimensions coords ! 1; h = dimensions coords ! 2
           in 2 * (l * w + l * h + w * h))"

definition calculate_enhanced_volume :: "geometry_lib \<Rightarrow> (real \<times> real \<times> real) list \<Rightarrow> real" where
  "calculate_enhanced_volume lib coords =
     (if length coords < 4 then approximate_volume coords
      else case ConvexHull lib coords of
             Some qh \<Rightarrow> fst qh
           | None \<Rightarrow> approximate_volume coords)"

definition calculate_enhanced_surface_area :: "geometry_lib \<Rightarrow> (real \<times> real \<times> real) list \<Rightarrow> real" where
  "calculate_enhanced_surface_area lib coords =
     (if length coords < 4 then approximate_surface_area coords
      else case ConvexHull lib coords of
             Some qh \<Rightarrow> snd qh
           | None \<Rightarrow> approximate_surface_area coords)"

definition calculate_aspect_ratio :: "(real \<times> real \<times> real) list \<Rightarrow> real" where
  "calculate_aspect_ratio coords =
     (if length coords < 2 then 1.0
      else let dims = dimensions coords;
               max_dim = Max (set dims);
               min_dim = (if filter (\<lambda>d. 0 < d) dims \<noteq> [] then Min (set (filter (\<lambda>d. 0 < d) dims))
                          else 1.0)
           in if 0 < min_dim then max_dim / min_dim else 1.0)"

text \<open>\<^verbatim>\<open>np.cov(centered_coords.T)\<close>: the \<open>3 \<times> 3\<close> covariance matrix, normalised by \<open>n - 1\<close>.\<close>

definition np_cov :: "(real \<times> real \<times> real) list \<Rightarrow> real list list" where
  "np_cov coords =
     (let axes = [fst, fst \<circ> snd, snd \<circ> snd];
          n = length coords
      in map (\<lambda>a. map (\<lambda>b.
                sum_list (map (\<lambda>c. (a c - np_mean (map a coords)) * (b c - np_mean (map b coords)))
                           coords) / (real n - 1)) axes) axes)"

definition calculate_enhanced_aspect_ratio :: "geometry_lib \<Rightarrow> (real \<times> real \<times> real) list \<Rightarrow> real" where
  "calculate_enhanced_aspect_ratio lib coords =
     (if length coords < 2 then 1.0
      else case eigvals lib (np_cov coords) of
             None \<Rightarrow> calculate_aspect_ratio coords
           | Some evs \<Rightarrow>
               (let eigenvalues = rev (sort evs)
                in if eigenvalues = [] then calculate_aspect_ratio coords
                   else if 1 / 1000000 < last eigenvalues
                   then hd eigenvalues / last eigenvalues
                   else 1.0))"

definition calculate_enhanced_radial_distribution ::
  "(real \<times> real \<times> real) list \<Rightarrow> real \<times> real \<times> real \<Rightarrow> real" where
  "calculate_enhanced_radial_distribution coords c =
     (let distances = map (\<lambda>p. euclidean p c) coords
      in if length distances \<le> 1 then 0.0
         else let mean_dist = np_mean distances; std_dist = np_std distances
              in if 0 < mean_dist then std_dist / mean_dist else 0.0)"

text \<open>With no pose, \<^verbatim>\<open>np.linalg.norm(..., axis=1)\<close> raises on the one-dimensional empty array.\<close>

definition extract_enhanced_spatial_features ::
  "geometry_lib \<Rightarrow> DockingPose list \<Rightarrow> error + feature_dict" where
  "extract_enhanced_spatial_features lib poses =
     (if poses = [] then Inl ValueError
      else
        let coords = map coordinates poses;
            c = calculate_cluster_center poses;
            spatial_spread = np_std (map (\<lambda>p. euclidean p c) coords);
            volume = calculate_enhanced_volume lib coords;
            compactness = (if 0 < spatial_spread then volume / (spatial_spread + 1 / 1000000)
                           else 0.0)
        in Inr [(''center_x'', Fin (fst c)),
                (''center_y'', Fin (fst (snd c))),
                (''center_z'', Fin (snd (snd c))),
                (''spatial_spread'', Fin spatial_spread),
                (''volume'', Fin volume),
                (''compactness'', Fin compactness),
                (''surface_area'', Fin (calculate_enhanced_surface_area lib coords)),
                (''aspect_ratio'', Fin (calculate_enhanced_aspect_ratio lib coords)),
                (''radial_distribution'', Fin (calculate_enhanced_radial_distribution coords c))])"

definition extract_enhanced_consensus_features ::
  "DockingPose list \<Rightarrow> DockingPose list \<Rightarrow> feature_dict" where
  "extract_enhanced_consensus_features members all_poses =
     [(''consensus_density'',
        Fin (if all_poses \<noteq> [] then real (length members) / real (length all_poses)
             else 0.0))]"

subsection \<open>FeatureExtractor: the \<^verbatim>\<open>ClusterFeatures\<close> dataclass and \<^verbatim>\<open>extract_cluster_features\<close>\<close>

text \<open>
  The annotations of the class body, in the source's order. Several names are annotated
  twice; a dataclass has one field per name, and since no field has a default, its
  constructor requires every one of them.
\<close>

definition ClusterFeatures_annotations :: "string list" where
  "ClusterFeatures_annotations =
     [''cluster_id'',
      ''mean_affinity'', ''std_affinity'', ''min_affinity'', ''max_affinity'', ''energy_range'',
      ''center_x'', ''center_y'', ''center_z'', ''spatial_spread'', ''volume'', ''compactness'',
      ''surface_area'', ''aspect_ratio'', ''radial_distribution'',
      ''probe_diversity'', ''hydrophobic_count'', ''polar_count'', ''aromatic_count'',
      ''charged_count'', ''molecular_weight_avg'', ''logp_avg'', ''polar_surface_area'',
      ''hydrogen_bond_donors'', ''hydrogen_bond_acceptors'', ''vdw_interactions'',
      ''electrostatic_potential'', ''pi_stacking_potential'', ''hydrophobic_surface'',
      ''consensus_density'',
      ''hydrogen_bond_donors'', ''hydrogen_bond_acceptors'', ''vdw_interactions'',
      ''electrostatic_potential'', ''pi_stacking_potential'', ''hydrophobic_surface'',
      ''consensus_density'', ''probe_agreement'', ''energy_consensus'', ''spatial_consensus'',
      ''rmsd_mean'', ''pose_count'']"

definition ClusterFeatures_fields :: "string list" where
  "ClusterFeatures_fields = rev (remdups (rev ClusterFeatures_annotations))"

text \<open>
  The generated constructor, called with keyword arguments: a repeated keyword, a keyword
  that is no field, or a field without an argument raises \<^verbatim>\<open>TypeError\<close>.
\<close>

definition ClusterFeatures_init :: "feature_dict \<Rightarrow> error + (string \<rightharpoonup> npfloat)" where
  "ClusterFeatures_init kwargs =
     (let keys = map fst kwargs
      in if \<not> distinct keys \<or> \<not> set keys \<subseteq> set ClusterFeatures_fields
            \<or> \<not> set ClusterFeatures_fields \<subseteq> set keys
         then Inl TypeError
         else Inr (map_of kwargs))"

definition extract_single_cluster_features ::
  "geometry_lib \<Rightarrow> (string \<rightharpoonup> ProbeProperties) \<Rightarrow> Cluster \<Rightarrow> DockingPose list \<Rightarrow> DockingPose list
     \<Rightarrow> error + (string \<rightharpoonup> npfloat)" where
  "extract_single_cluster_features lib table cluster members all_poses =
     (case extract_energy_features (map affinity members) of
        Inl e \<Rightarrow> Inl e
      | Inr energy_features \<Rightarrow>
     (case extract_enhanced_spatial_features lib members of
        Inl e \<Rightarrow> Inl e
      | Inr spatial_features \<Rightarrow>
          ClusterFeatures_init
            ((''cluster_id'', Fin (real_of_int (cluster_id cluster)))
               # energy_features
               @ spatial_features
               @ extract_enhanced_chemical_features table members
               @ extract_enhanced_interaction_features table members
               @ extract_enhanced_consensus_features members all_poses)))"

text \<open>The keys of \<^verbatim>\<open>_features_to_dict\<close>, in its order: the cluster id and the 29 features.\<close>

definition features_dict_keys :: "string list" where
  "features_dict_keys =
     [''cluster_id'',
      ''mean_affinity'', ''std_affinity'', ''min_affinity'', ''max_affinity'', ''energy_range'',
      ''center_x'', ''center_y'', ''center_z'', ''spatial_spread'', ''volume'', ''compactness'',
      ''surface_area'', ''aspect_ratio'', ''radial_distribution'',
      ''probe_diversity'', ''hydrophobic_count'', ''polar_count'', ''aromatic_count'',
      ''charged_count'', ''molecular_weight_avg'', ''logp_avg'', ''polar_surface_area'',
      ''hydrogen_bond_donors'', ''hydrogen_bond_acceptors'', ''vdw_interactions'',
      ''electrostatic_potential'', ''pi_stacking_potential'', ''hydrophobic_surface'',
      ''consensus_density'']"

definition features_to_dict :: "(string \<rightharpoonup> npfloat) \<Rightarrow> error + feature_dict" where
  "features_to_dict features =
     (if list_all (\<lambda>k. features k \<noteq> None) features_dict_keys
      then Inr (map (\<lambda>k. (k, the (features k))) features_dict_keys)
      else Inl AttributeError)"

definition extract_cluster_features ::
  "geometry_lib \<Rightarrow> (string \<rightharpoonup> ProbeProperties) \<Rightarrow> Cluster list \<Rightarrow> DockingPose list
     \<Rightarrow> error + feature_dict list" where
  "extract_cluster_features lib table clusters all_poses =
     (case collect (\<lambda>cluster.
               case select_poses all_poses (poses_indices cluster) of
                 Inl e \<Rightarrow> Inl e
               | Inr members \<Rightarrow>
                   (case extract_single_cluster_features lib table cluster members all_poses of
                      Inl e \<Rightarrow> Inl e
                    | Inr features \<Rightarrow> Inr (Some features))) clusters of
        Inl e \<Rightarrow> Inl e
      | Inr features_list \<Rightarrow>
          (case collect (\<lambda>f. case features_to_dict f of Inl e \<Rightarrow> Inl e | Inr d \<Rightarrow> Inr (Some d))
                  features_list of
             Inl e \<Rightarrow> Inl e
           | Inr rows \<Rightarrow> Inr rows))"

text \<open>
  An example geometry library (every call raises, so the fallbacks are taken) and the
  cluster of the first five example poses.
\<close>

definition example_geometry :: geometry_lib where
  "example_geometry = \<lparr> ConvexHull = (\<lambda>coords. None), eigvals = (\<lambda>m. None) \<rparr>"

definition example_cluster :: Cluster where
  "example_cluster =
     \<lparr> cluster_id = 0, poses_indices = [0, 1, 2, 3, 4], center = (1, 2, 3), size' = 5,
       density = 5000000, avg_affinity = - 1, probe_diversity = 1, quality_score = 37 / 90 \<rparr>"

text \<open>
  The weights added one by one, from left to right, in the arithmetic of doubles: what
  \<^verbatim>\<open>sum\<close> computes up to CPython 3.11, and what the matrix loops accumulate in an entry on
  which all label sets agree.
\<close>

definition left_to_right_sum :: "floats \<Rightarrow> real list \<Rightarrow> npfloat" where
  "left_to_right_sum F ws = fold (\<lambda>w x. float_add F x (Fin w)) ws (Fin 0)"

text \<open>
  An arithmetic for the concrete instances below: no rounding error, and overflow beyond
  the largest double, \<open>2\<^sup>1\<^sup>0\<^sup>2\<^sup>4 - 2\<^sup>9\<^sup>7\<^sup>1\<close>.
\<close>

definition exact_floats :: floats where
  "exact_floats = \<lparr> round_to_nearest = (\<lambda>x. x), max_float = 2 ^ 1024 - 2 ^ 971 \<rparr>"

text \<open>An example runtime and example poses, for the concrete instances below.\<close>

definition example_runtime :: runtime where
  "example_runtime =
     \<lparr> float_arithmetic = exact_floats,
       builtin_sum = left_to_right_sum exact_floats,
       str_hash = (\<lambda>s. int (length s)),
       set_rank = (\<lambda>l. nat (l + 1)),
       DBSCAN_fit_predict = (\<lambda>eps min_samples X. replicate (length X - 1) 0 @ [- 1]),
       ward_labels = (\<lambda>k X. map (\<lambda>i. int (i mod k)) [0..<length X]),
       tie_order = hd \<rparr>"

definition example_pose :: "string \<Rightarrow> real \<Rightarrow> DockingPose" where
  "example_pose name e =
     \<lparr> probe_name = name, pose_id = 1, coordinates = (1, 2, 3), affinity = e,
       rmsd_lb = 0, rmsd_ub = 0, rotation = (0, 0, 0) \<rparr>"

definition example_poses :: "DockingPose list" where
  "example_poses = replicate 5 (example_pose ''benzene'' (- 1)) @ [example_pose ''urea'' (- 2)]"





text \<open>Notions used to state what the loops compute.\<close>

definition square :: "nat \<Rightarrow> 'a list list \<Rightarrow> bool" where
  "square n m \<longleftrightarrow> length m = n \<and> (\<forall>i<n. length (m ! i) = n)"

definition agree :: "labels \<Rightarrow> nat \<Rightarrow> nat \<Rightarrow> bool" where
  "agree ls a b \<longleftrightarrow> ls ! a = ls ! b \<and> ls ! a \<noteq> - 1"

text \<open>
  What the loops leave in the entry \<open>(a, b)\<close> that held \<open>x\<close>: the weights of the label sets
  that put \<open>a\<close> and \<open>b\<close> in one group, added to \<open>x\<close> in the order of the label sets.
\<close>

definition accumulated :: "('a \<Rightarrow> 'w \<Rightarrow> 'a) \<Rightarrow> (labels \<times> 'w) list \<Rightarrow> nat \<Rightarrow> nat \<Rightarrow> 'a \<Rightarrow> 'a" where
  "accumulated add lws a b x =
     fold (\<lambda>lw y. if a \<noteq> b \<and> agree (fst lw) a b then add y (snd lw) else y) lws x"

definition co_association :: "floats \<Rightarrow> (labels \<times> real) list \<Rightarrow> nat \<Rightarrow> nat \<Rightarrow> npfloat" where
  "co_association F lws a b = accumulated (\<lambda>x w. float_add F x (Fin w)) lws a b (Fin 0)"

definition unit_entry :: "npfloat \<Rightarrow> bool" where
  "unit_entry x = (case x of Fin r \<Rightarrow> 0 \<le> r \<and> r \<le> 1 | PosInf \<Rightarrow> False | NegInf \<Rightarrow> False | NaN \<Rightarrow> False)"

text \<open>
  The properties of rounding to the nearest double that the bounds below rest on: it is
  monotone and leaves \<open>0\<close>, \<open>1\<close> and every double as they are; \<open>1\<close> is not beyond the
  largest double.
\<close>

definition rounding :: "floats \<Rightarrow> bool" where
  "rounding F \<longleftrightarrow>
     (\<forall>x y. x \<le> y \<longrightarrow> round_to_nearest F x \<le> round_to_nearest F y) \<and>
     (\<forall>x. round_to_nearest F (round_to_nearest F x) = round_to_nearest F x) \<and>
     round_to_nearest F 0 = 0 \<and> round_to_nearest F 1 = 1 \<and> 1 \<le> max_float F"

subsection \<open>ConsensusAggregator: what the matrix loops compute\<close>


lemma square_float_zeros: "square n (float_zeros n)"
  by (simp add: square_def float_zeros_def)

lemma square_add_at: "square n m \<Longrightarrow> square n (add_at add m i j w)"
  by (cases "i < length m") (auto simp: square_def add_at_def nth_list_update)

lemma nth_add_at:
  "square n m \<Longrightarrow> a < n \<Longrightarrow> b < n \<Longrightarrow>
   add_at add m i j w ! a ! b = (if a = i \<and> b = j then add (m ! a ! b) w else m ! a ! b)"
  by (cases "i < length m"; cases "j < length (m ! i)")
     (auto simp: square_def add_at_def nth_list_update)

lemma pair_step_ok:
  assumes "square n m" "n \<le> length ls" "i < n" "j < n" "i \<noteq> j"
  shows "\<exists>m'. pair_step add ls w i j m = Inr m' \<and> square n m' \<and>
           (\<forall>a<n. \<forall>b<n. m' ! a ! b =
              (if agree ls a b \<and> ((a = i \<and> b = j) \<or> (a = j \<and> b = i))
               then add (m ! a ! b) w else m ! a ! b))"
proof -
  have sq: "square n (add_at add m i j w)" using assms(1) by (rule square_add_at)
  show ?thesis
    using assms nth_add_at[OF sq, of _ _ add] nth_add_at[OF assms(1), of _ _ add]
      square_add_at[OF sq, of add]
    by (auto simp: pair_step_def np_get_def agree_def)
qed

lemma inner_loop_ok:
  assumes "square n m" "n \<le> length ls" "i < n" "\<forall>j\<in>set js. i < j \<and> j < n" "distinct js"
  shows "\<exists>m'. for_each js (pair_step add ls w i) m = Inr m' \<and> square n m' \<and>
           (\<forall>a<n. \<forall>b<n. m' ! a ! b =
              (if agree ls a b \<and> ((a = i \<and> b \<in> set js) \<or> (b = i \<and> a \<in> set js))
               then add (m ! a ! b) w else m ! a ! b))"
  using assms
proof (induction js arbitrary: m)
  case Nil
  then show ?case by simp
next
  case (Cons j js)
  from Cons.prems have j: "j < n" "i \<noteq> j" by auto
  from pair_step_ok[OF Cons.prems(1,2,3) j, of add w]
  obtain m1 where m1: "pair_step add ls w i j m = Inr m1" "square n m1"
    "\<forall>a<n. \<forall>b<n. m1 ! a ! b =
       (if agree ls a b \<and> ((a = i \<and> b = j) \<or> (a = j \<and> b = i))
        then add (m ! a ! b) w else m ! a ! b)"
    by blast
  from Cons.IH[OF m1(2) Cons.prems(2,3)] Cons.prems(4,5)
  obtain m2 where m2: "for_each js (pair_step add ls w i) m1 = Inr m2" "square n m2"
    "\<forall>a<n. \<forall>b<n. m2 ! a ! b =
       (if agree ls a b \<and> ((a = i \<and> b \<in> set js) \<or> (b = i \<and> a \<in> set js))
        then add (m1 ! a ! b) w else m1 ! a ! b)"
    by auto
  have "for_each (j # js) (pair_step add ls w i) m = Inr m2" using m1(1) m2(1) by simp
  moreover have "\<forall>a<n. \<forall>b<n. m2 ! a ! b =
       (if agree ls a b \<and> ((a = i \<and> b \<in> set (j # js)) \<or> (b = i \<and> a \<in> set (j # js)))
        then add (m ! a ! b) w else m ! a ! b)"
    using m1(3) m2(3) Cons.prems(4,5) j by auto
  ultimately show ?case using m2(2) by blast
qed

lemma agree_sym: "agree ls a b \<longleftrightarrow> agree ls b a"
  by (auto simp: agree_def)

lemma outer_loop_ok:
  assumes "square n m" "n \<le> length ls" "\<forall>i\<in>set is. i < n" "distinct is"
  shows "\<exists>m'. for_each is (\<lambda>i. for_each [Suc i..<n] (pair_step add ls w i)) m = Inr m' \<and>
           square n m' \<and>
           (\<forall>a<n. \<forall>b<n. m' ! a ! b =
              (if agree ls a b \<and> a \<noteq> b \<and> min a b \<in> set is
               then add (m ! a ! b) w else m ! a ! b))"
  using assms
proof (induction "is" arbitrary: m)
  case Nil
  then show ?case by simp
next
  case (Cons i "is")
  from Cons.prems have i: "i < n" by simp
  have js: "\<forall>j\<in>set [Suc i..<n]. i < j \<and> j < n" "distinct [Suc i..<n]" by auto
  from inner_loop_ok[OF Cons.prems(1,2) i js, of add w]
  obtain m1 where m1: "for_each [Suc i..<n] (pair_step add ls w i) m = Inr m1" "square n m1"
    "\<forall>a<n. \<forall>b<n. m1 ! a ! b =
       (if agree ls a b \<and> ((a = i \<and> b \<in> set [Suc i..<n]) \<or> (b = i \<and> a \<in> set [Suc i..<n]))
        then add (m ! a ! b) w else m ! a ! b)"
    by blast
  from Cons.IH[OF m1(2) Cons.prems(2)] Cons.prems(3,4)
  obtain m2 where m2:
    "for_each is (\<lambda>i. for_each [Suc i..<n] (pair_step add ls w i)) m1 = Inr m2"
    "square n m2"
    "\<forall>a<n. \<forall>b<n. m2 ! a ! b =
       (if agree ls a b \<and> a \<noteq> b \<and> min a b \<in> set is
        then add (m1 ! a ! b) w else m1 ! a ! b)"
    by auto
  have run: "for_each (i # is) (\<lambda>i. for_each [Suc i..<n] (pair_step add ls w i)) m = Inr m2"
    using m1(1) m2(1) by simp
  have ent: "m2 ! a ! b =
       (if agree ls a b \<and> a \<noteq> b \<and> min a b \<in> set (i # is)
        then add (m ! a ! b) w else m ! a ! b)"
    if "a < n" "b < n" for a b
  proof -
    have e1: "m1 ! a ! b =
       (if agree ls a b \<and> a \<noteq> b \<and> min a b = i then add (m ! a ! b) w else m ! a ! b)"
      using m1(3) that by (auto simp: min_def)
    have ni: "i \<notin> set is" using Cons.prems(4) by simp
    show ?thesis using m2(3) that e1 ni by auto
  qed
  show ?case using run m2(2) ent by blast
qed

lemma accumulate_labels_ok:
  assumes "square n m" "n \<le> length (fst lw)"
  shows "\<exists>m'. accumulate_labels add n lw m = Inr m' \<and> square n m' \<and>
           (\<forall>a<n. \<forall>b<n. m' ! a ! b =
              (if a \<noteq> b \<and> agree (fst lw) a b then add (m ! a ! b) (snd lw) else m ! a ! b))"
proof -
  have "\<forall>i\<in>set [0..<n]. i < n" "distinct [0..<n]" by auto
  from outer_loop_ok[OF assms this, of add "snd lw"]
  show ?thesis by (auto simp: accumulate_labels_def min_def)
qed

lemma label_sets_loop_ok:
  assumes "square n m" "\<forall>lw\<in>set lws. n \<le> length (fst lw)"
  shows "\<exists>m'. for_each lws (accumulate_labels add n) m = Inr m' \<and> square n m' \<and>
           (\<forall>a<n. \<forall>b<n. m' ! a ! b = accumulated add lws a b (m ! a ! b))"
  using assms
proof (induction lws arbitrary: m)
  case Nil
  then show ?case by (simp add: accumulated_def)
next
  case (Cons lw lws)
  from Cons.prems have "n \<le> length (fst lw)" by simp
  from accumulate_labels_ok[OF Cons.prems(1) this, of add]
  obtain m1 where m1: "accumulate_labels add n lw m = Inr m1" "square n m1"
    "\<forall>a<n. \<forall>b<n. m1 ! a ! b =
       (if a \<noteq> b \<and> agree (fst lw) a b then add (m ! a ! b) (snd lw) else m ! a ! b)"
    by blast
  from Cons.IH[OF m1(2)] Cons.prems(2)
  obtain m2 where m2: "for_each lws (accumulate_labels add n) m1 = Inr m2" "square n m2"
    "\<forall>a<n. \<forall>b<n. m2 ! a ! b = accumulated add lws a b (m1 ! a ! b)" by auto
  have "for_each (lw # lws) (accumulate_labels add n) m = Inr m2" using m1(1) m2(1) by simp
  moreover have "\<forall>a<n. \<forall>b<n. m2 ! a ! b = accumulated add (lw # lws) a b (m ! a ! b)"
    using m1(3) m2(3) by (simp add: accumulated_def)
  ultimately show ?case using m2(2) by blast
qed

lemma consensus_matrix_entries:
  assumes "label_sets = first # rest" "\<forall>ls\<in>set label_sets. length first \<le> length ls"
  shows "\<exists>cm. consensus_matrix F py_sum label_sets ws = Inr cm \<and> length cm = length first \<and>
           (\<forall>a<length first. length (cm ! a) = length first) \<and>
           (\<forall>a<length first. \<forall>b<length first.
              cm ! a ! b = float_divide F (co_association F (zip label_sets ws) a b) (py_sum ws))"
proof -
  let ?n = "length first" and ?add = "\<lambda>x w. float_add F x (Fin w)"
  have "\<forall>lw\<in>set (zip label_sets ws). ?n \<le> length (fst lw)"
    using assms(2) by (auto dest: set_zip_leftD)
  from label_sets_loop_ok[OF square_float_zeros this, of ?add]
  obtain m where m:
    "for_each (zip label_sets ws) (accumulate_labels ?add ?n) (float_zeros ?n) = Inr m"
    "square ?n m"
    "\<forall>a<?n. \<forall>b<?n. m ! a ! b = accumulated ?add (zip label_sets ws) a b (float_zeros ?n ! a ! b)"
    by blast
  have z: "float_zeros ?n ! a ! b = Fin 0" if "a < ?n" "b < ?n" for a b
    using that by (simp add: float_zeros_def)
  have "consensus_matrix F py_sum label_sets ws
          = Inr (map (map (\<lambda>x. float_divide F x (py_sum ws))) m)"
    using m(1) assms(1) by (simp add: consensus_matrix_def)
  then show ?thesis using m(2,3) z by (auto simp: square_def co_association_def)
qed

lemma co_association_sym: "co_association F lws a b = co_association F lws b a"
  by (simp add: co_association_def accumulated_def agree_sym[of _ a b] eq_commute[of a b])

lemma float_add_is_number:
  "float_add F x (Fin u) = Fin r \<Longrightarrow> \<exists>a. x = Fin a \<and> fl F (a + u) = Fin r"
  by (cases x) (simp_all add: float_add_def)

text \<open>An infinity or NaN stays one when numbers are added to it.\<close>

lemma fold_float_add_not_fin:
  "(\<forall>r. x \<noteq> Fin r) \<Longrightarrow> \<forall>r. fold (\<lambda>w y. float_add F y (Fin w)) ws x \<noteq> Fin r"
proof (induction ws arbitrary: x)
  case Nil
  then show ?case by simp
next
  case (Cons w ws)
  have "\<forall>r. float_add F x (Fin w) \<noteq> Fin r"
    using Cons.prems by (cases x) (simp_all add: float_add_def)
  from Cons.IH[OF this] show ?case by simp
qed

lemma fl_in_range:
  assumes "rounding F" "0 \<le> x" "x \<le> y" "fl F y = Fin y'"
  shows "fl F x = Fin (round_to_nearest F x) \<and> 0 \<le> round_to_nearest F x \<and>
         round_to_nearest F x \<le> y' \<and> y' = round_to_nearest F y"
proof -
  let ?r = "round_to_nearest F"
  have y': "y' = ?r y" "?r y \<le> max_float F"
    using assms(4) by (auto simp: fl_def Let_def split: if_splits)
  have mono: "\<And>u v. u \<le> v \<Longrightarrow> ?r u \<le> ?r v" using assms(1) by (simp add: rounding_def)
  have "?r 0 \<le> ?r x" "?r x \<le> ?r y" using mono[OF assms(2)] mono[OF assms(3)] by simp_all
  moreover have "?r 0 = 0" "1 \<le> max_float F" using assms(1) by (auto simp: rounding_def)
  ultimately show ?thesis using y' by (simp add: fl_def)
qed

text \<open>Non-negative weights added from left to right: the sum does not decrease.\<close>

lemma left_to_right_grows:
  assumes "rounding F" "\<forall>w\<in>set ws. 0 \<le> w" "0 \<le> t" "round_to_nearest F t = t"
    and "fold (\<lambda>w y. float_add F y (Fin w)) ws (Fin t) = Fin l"
  shows "t \<le> l"
  using assms(2-)
proof (induction ws arbitrary: t)
  case Nil
  then show ?case by simp
next
  case (Cons w ws)
  let ?r = "round_to_nearest F"
  have step: "float_add F (Fin t) (Fin w) = fl F (t + w)" by (simp add: float_add_def)
  obtain t' where t': "fl F (t + w) = Fin t'"
    using fold_float_add_not_fin[where x = "fl F (t + w)" and F = F and ws = ws] Cons.prems(4) step
    by (cases "fl F (t + w)") auto
  have w: "0 \<le> w" using Cons.prems(1) by simp
  from fl_in_range[OF assms(1) Cons.prems(2) _ t'] w
  have b: "?r t \<le> t'" "t' = ?r (t + w)" by auto
  have idem: "?r t' = t'" using b(2) assms(1) by (simp add: rounding_def)
  have "t' \<le> l"
    using Cons.IH[of t'] Cons.prems(1,2,3,4) b idem step t' by simp
  then show ?case using b(1) Cons.prems(3) by simp
qed

text \<open>
  An entry accumulates some of the non-negative weights, in their order: it stays a number
  between 0 and the sum of all of them.
\<close>

lemma accumulated_le_sum:
  assumes "rounding F" "\<forall>lw\<in>set lws. 0 \<le> snd lw" "0 \<le> x" "x \<le> t" "round_to_nearest F t = t"
    and "fold (\<lambda>w y. float_add F y (Fin w)) (map snd lws) (Fin t) = Fin l"
  shows "\<exists>y. accumulated (\<lambda>x w. float_add F x (Fin w)) lws a b (Fin x) = Fin y \<and> 0 \<le> y \<and> y \<le> l"
  using assms(2-)
proof (induction lws arbitrary: x t)
  case Nil
  then show ?case by (simp add: accumulated_def)
next
  case (Cons lw lws)
  let ?r = "round_to_nearest F" and ?w = "snd lw"
  have step: "float_add F (Fin t) (Fin ?w) = fl F (t + ?w)" by (simp add: float_add_def)
  obtain t' where t': "fl F (t + ?w) = Fin t'"
    using fold_float_add_not_fin[where x = "fl F (t + ?w)" and F = F and ws = "map snd lws"]
      Cons.prems(5) step
    by (cases "fl F (t + ?w)") auto
  have w: "0 \<le> ?w" using Cons.prems(1) by simp
  have t0: "0 \<le> t" using Cons.prems(2,3) by simp
  from fl_in_range[OF assms(1) t0 _ t'] w
  have bt: "?r t \<le> t'" "t' = ?r (t + ?w)" by auto
  have tt: "t \<le> t'" using bt(1) Cons.prems(4) by simp
  have idem: "?r t' = t'" using bt(2) assms(1) by (simp add: rounding_def)
  have rest: "fold (\<lambda>w y. float_add F y (Fin w)) (map snd lws) (Fin t') = Fin l"
    using Cons.prems(5) step t' by simp
  have nn: "\<forall>lw\<in>set lws. 0 \<le> snd lw" using Cons.prems(1) by simp
  show ?case
  proof (cases "a \<noteq> b \<and> agree (fst lw) a b")
    case True
    have xw: "0 \<le> x + ?w" "x + ?w \<le> t + ?w" using Cons.prems(2,3) w by simp_all
    from fl_in_range[OF assms(1) xw t']
    have bx: "fl F (x + ?w) = Fin (?r (x + ?w))" "0 \<le> ?r (x + ?w)" "?r (x + ?w) \<le> t'" by auto
    from Cons.IH[OF nn bx(2,3) idem rest]
    show ?thesis using True bx(1) by (simp add: accumulated_def float_add_def)
  next
    case False
    have "x \<le> t'" using Cons.prems(3) tt by simp
    from Cons.IH[OF nn Cons.prems(2) this idem rest]
    show ?thesis using False by (auto simp: accumulated_def)
  qed
qed

lemma co_association_zip_bounds:
  assumes "rounding F" "\<forall>w\<in>set ws. 0 \<le> w" "left_to_right_sum F ws = Fin l"
  shows "\<exists>y. co_association F (zip lss ws) a b = Fin y \<and> 0 \<le> y \<and> y \<le> l"
proof -
  let ?f = "\<lambda>w y. float_add F y (Fin w)" and ?k = "length lss"
  have r0: "round_to_nearest F 0 = 0" using assms(1) by (simp add: rounding_def)
  have split: "fold ?f (drop ?k ws) (fold ?f (take ?k ws) (Fin 0)) = Fin l"
    using assms(3) fold_append[of ?f "take ?k ws" "drop ?k ws"]
    by (simp add: left_to_right_sum_def)
  obtain l1 where l1: "fold ?f (take ?k ws) (Fin 0) = Fin l1"
    using fold_float_add_not_fin[where x = "fold ?f (take ?k ws) (Fin 0)" and F = F
        and ws = "drop ?k ws"] split
    by (cases "fold ?f (take ?k ws) (Fin 0)") auto
  have nt: "\<forall>w\<in>set (take ?k ws). 0 \<le> w" and nd: "\<forall>w\<in>set (drop ?k ws). 0 \<le> w"
    using assms(2) by (auto dest: in_set_takeD in_set_dropD)
  have l10: "0 \<le> l1" using left_to_right_grows[OF assms(1) nt _ r0 l1] by simp
  have l1r: "round_to_nearest F l1 = l1"
  proof (cases "take ?k ws" rule: rev_cases)
    case Nil
    have "l1 = 0" using l1 unfolding Nil by simp
    then show ?thesis using r0 by simp
  next
    case (snoc us u)
    have "float_add F (fold ?f us (Fin 0)) (Fin u) = Fin l1" using l1 unfolding snoc by simp
    then obtain v where "fl F v = Fin l1" using float_add_is_number by blast
    then have "l1 = round_to_nearest F v" by (auto simp: fl_def Let_def split: if_splits)
    then show ?thesis using assms(1) by (simp add: rounding_def)
  qed
  have l1l: "l1 \<le> l" using left_to_right_grows[OF assms(1) nd l10 l1r] split l1 by simp
  have nn: "\<forall>lw\<in>set (zip lss ws). 0 \<le> snd lw" using assms(2) by (auto dest: set_zip_rightD)
  have ms: "map snd (zip lss ws) = take ?k ws" by (simp add: map_snd_zip_take min_def take_all)
  have tot: "fold ?f (map snd (zip lss ws)) (Fin 0) = Fin l1" using l1 ms by simp
  have z: "(0 :: real) \<le> 0" by simp
  from accumulated_le_sum[OF assms(1) nn z z r0 tot, of a b]
  show ?thesis using l1l by (auto simp: co_association_def)
qed

text \<open>
  C6, as the code has it. For label sets of one length and non-negative weights whose
  \<^verbatim>\<open>sum\<close> is a positive number, not below the weights added one by one in doubles (how the
  entries are accumulated; for a \<^verbatim>\<open>sum\<close> that adds from left to right the two are equal),
  the consensus matrix is built, is square and symmetric, and each entry is a number in
  \<open>[0, 1]\<close>. A sum that is zero, or that overflows, gives NaN entries, as the instances
  after the theorem show.
\<close>

theorem consensus_matrix_symmetric_unit_interval:
  assumes "label_sets = first # rest"
    and "\<forall>ls\<in>set label_sets. length ls = length first"
    and "rounding F"
    and "\<forall>w\<in>set ws. 0 \<le> w"
    and "py_sum ws = Fin s" "0 < s"
    and "left_to_right_sum F ws = Fin l" "l \<le> s"
  shows "\<exists>cm. consensus_matrix F py_sum label_sets ws = Inr cm \<and>
           length cm = length first \<and>
           (\<forall>a<length first. length (cm ! a) = length first) \<and>
           (\<forall>a<length first. \<forall>b<length first.
              cm ! a ! b = cm ! b ! a \<and> unit_entry (cm ! a ! b))"
proof -
  have "\<forall>ls\<in>set label_sets. length first \<le> length ls" using assms(2) by simp
  from consensus_matrix_entries[OF assms(1) this, of F py_sum ws]
  obtain cm where cm: "consensus_matrix F py_sum label_sets ws = Inr cm"
    "length cm = length first"
    "\<forall>a<length first. length (cm ! a) = length first"
    "\<forall>a<length first. \<forall>b<length first.
       cm ! a ! b = float_divide F (co_association F (zip label_sets ws) a b) (py_sum ws)"
    by blast
  have "cm ! a ! b = cm ! b ! a \<and> unit_entry (cm ! a ! b)"
    if "a < length first" "b < length first" for a b
  proof -
    from co_association_zip_bounds[OF assms(3,4,7), of label_sets a b]
    obtain y where y: "co_association F (zip label_sets ws) a b = Fin y" "0 \<le> y" "y \<le> l"
      by blast
    have q: "0 \<le> y / s" "y / s \<le> 1" using y(2,3) assms(6,8) by (simp_all add: divide_le_eq)
    have one: "fl F 1 = Fin 1" using assms(3) by (simp add: fl_def rounding_def)
    from fl_in_range[OF assms(3) q one]
    have "fl F (y / s) = Fin (round_to_nearest F (y / s))"
      "0 \<le> round_to_nearest F (y / s)" "round_to_nearest F (y / s) \<le> 1"
      by auto
    then have e: "float_divide F (Fin y) (Fin s) = Fin (round_to_nearest F (y / s))"
      "unit_entry (Fin (round_to_nearest F (y / s)))"
      using assms(6) by (simp_all add: float_divide_def unit_entry_def)
    have "cm ! a ! b = float_divide F (Fin y) (Fin s)" using cm(4) that y(1) assms(5) by simp
    moreover have "cm ! b ! a = float_divide F (Fin y) (Fin s)"
      using cm(4) that y(1) assms(5) co_association_sym[of F _ a b] by simp
    ultimately show ?thesis using e by simp
  qed
  then show ?thesis using cm(1,2,3) by blast
qed

lemma rounding_exact_floats: "rounding exact_floats"
  by (simp add: rounding_def exact_floats_def)

lemma default_weights_sum: "left_to_right_sum exact_floats [0.4, 0.3, 0.3] = Fin 1"
  by (simp add: left_to_right_sum_def float_add_def fl_def exact_floats_def)

text \<open>The default weights on three label sets of three poses.\<close>

theorem consensus_matrix_symmetric_unit_interval_witness:
  "\<exists>cm. consensus_matrix exact_floats (left_to_right_sum exact_floats)
           [[0, 0, 1], [0, 0, - 1], [0, 1, 1]] [0.4, 0.3, 0.3] = Inr cm \<and>
      length cm = 3 \<and>
      (\<forall>a<3. \<forall>b<3. cm ! a ! b = cm ! b ! a \<and> unit_entry (cm ! a ! b))"
proof -
  have eq: "\<forall>ls\<in>set [[0, 0, 1], [0, 0, - 1], [0, 1, 1 :: int]]. length ls = length [0, 0, 1 :: int]"
    by simp
  have nn: "\<forall>w\<in>set [0.4, 0.3, 0.3 :: real]. 0 \<le> w" by simp
  have pos: "(0 :: real) < 1" and le: "(1 :: real) \<le> 1" by simp_all
  from consensus_matrix_symmetric_unit_interval
    [where F = exact_floats and py_sum = "left_to_right_sum exact_floats"
       and ws = "[0.4, 0.3, 0.3]" and s = 1 and l = 1,
     OF refl eq rounding_exact_floats nn default_weights_sum pos default_weights_sum le]
  show ?thesis by (simp add: numeral_3_eq_3) blast
qed

text \<open>
  C6, as stated, fails: the weight triple \<open>(0, 0, 0)\<close> is non-negative; the division by
  the weight sum then stores NaN in every entry, which is not in \<open>[0, 1]\<close>. So does a
  triple whose sum overflows: with \<open>(10\<^sup>3\<^sup>0\<^sup>8, 10\<^sup>3\<^sup>0\<^sup>8, 10\<^sup>3\<^sup>0\<^sup>8)\<close> the entry of two poses
  that all label sets join, and the sum, are infinite, and their quotient is NaN.
\<close>

theorem consensus_matrix_zero_weights_not_unit:
  "consensus_matrix exact_floats (left_to_right_sum exact_floats)
     [[0, 0], [0, 0], [0, 0]] [0, 0, 0] = Inr [[NaN, NaN], [NaN, NaN]] \<and>
   \<not> unit_entry ([[NaN, NaN], [NaN, NaN]] ! 0 ! 1) \<and>
   consensus_matrix exact_floats (left_to_right_sum exact_floats)
     [[0, 0], [0, 0], [0, 0]] [10 ^ 308, 10 ^ 308, 10 ^ 308] = Inr [[Fin 0, NaN], [NaN, Fin 0]]"
  by (simp add: consensus_matrix_def accumulate_labels_def pair_step_def np_get_def add_at_def
      float_zeros_def float_divide_def float_add_def fl_def exact_floats_def left_to_right_sum_def
      infinity_of_def sign_of_def upt_rec numeral_2_eq_2 unit_entry_def)

subsection \<open>ConsensusAggregator: the final grouping\<close>
































text \<open>
  C2, as the code has it. No weight list is refused: for label sets of one length (at
  least two poses) and every weight list, in every arithmetic, the matrix is built, each
  entry being the agreeing weights, added up, divided by \<^verbatim>\<open>sum(weights)\<close>, and the final
  clustering returns one label per pose.
\<close>

theorem clustering_runs_for_any_weights:
  assumes "label_sets = first # rest"
    and "\<forall>ls\<in>set label_sets. length ls = length first"
    and "2 \<le> length first"
  shows "\<exists>cm final.
           consensus_matrix F py_sum label_sets ws = Inr cm \<and>
           (\<forall>a<length first. \<forall>b<length first.
              cm ! a ! b
                = float_divide F (co_association F (zip label_sets ws) a b) (py_sum ws)) \<and>
           weighted_consensus_clustering F py_sum tie cfg label_sets ws = Inr final \<and>
           length final = length first"
proof -
  let ?n = "length first"
  have "\<forall>ls\<in>set label_sets. length first \<le> length ls" using assms(2) by simp
  from consensus_matrix_entries[OF assms(1) this, of F py_sum ws]
  obtain cm where cm: "consensus_matrix F py_sum label_sets ws = Inr cm" "length cm = ?n"
    "\<forall>a<?n. \<forall>b<?n. cm ! a ! b
        = float_divide F (co_association F (zip label_sets ws) a b) (py_sum ws)"
    by blast
  have len: "length (distance_matrix (threshold_matrix (consensus_threshold cfg) cm)) = ?n"
    using cm(2) by (simp add: distance_matrix_def threshold_matrix_def)
  have "\<exists>final. weighted_consensus_clustering F py_sum tie cfg label_sets ws = Inr final \<and>
          length final = ?n"
    using cm(1) len assms(3)
    by (simp add: weighted_consensus_clustering_def agglomerative_precomputed_def labels_of_def)
  then show ?thesis using cm(1,3) by blast
qed



text \<open>Three poses and the weights \<open>(0.5, 0.3, 0.3)\<close>.\<close>

theorem clustering_runs_for_any_weights_witness:
  "\<exists>cm final.
     consensus_matrix exact_floats (left_to_right_sum exact_floats)
       [[0, 0, 0], [0, 0, 1], [0, 1, 1]] [0.5, 0.3, 0.3] = Inr cm \<and>
     weighted_consensus_clustering exact_floats (left_to_right_sum exact_floats) hd FTMapConfig_init
       [[0, 0, 0], [0, 0, 1], [0, 1, 1]] [0.5, 0.3, 0.3] = Inr final \<and>
     length final = length [0, 0, 0 :: int]"
proof -
  have eq: "\<forall>ls\<in>set [[0, 0, 0], [0, 0, 1], [0, 1, 1 :: int]]. length ls = length [0, 0, 0 :: int]"
    by simp
  have two: "2 \<le> length [0, 0, 0 :: int]" by simp
  from clustering_runs_for_any_weights[OF refl eq two, where F = exact_floats
      and py_sum = "left_to_right_sum exact_floats" and ws = "[0.5, 0.3, 0.3]" and tie = hd
      and cfg = FTMapConfig_init]
  show ?thesis by blast
qed

lemma unnormalised_sum: "left_to_right_sum exact_floats [0.5, 0.3, 0.3] = Fin 1.1"
  by (simp add: left_to_right_sum_def float_add_def fl_def exact_floats_def)

lemma unnormalised_matrix:
  "consensus_matrix exact_floats (left_to_right_sum exact_floats)
     [[0, 0, 0], [0, 0, 1], [0, 1, 1]] [0.5, 0.3, 0.3]
     = Inr [[Fin 0, Fin (8 / 11), Fin (5 / 11)],
            [Fin (8 / 11), Fin 0, Fin (8 / 11)],
            [Fin (5 / 11), Fin (8 / 11), Fin 0]]"
  by (simp add: consensus_matrix_def accumulate_labels_def pair_step_def np_get_def add_at_def
      float_zeros_def float_divide_def float_add_def fl_def exact_floats_def
      left_to_right_sum_def upt_rec numeral_2_eq_2 numeral_3_eq_3)

lemma unnormalised_threshold: "consensus_threshold (FTMapConfig_init\<lparr>weights := [0.5, 0.3, 0.3]\<rparr>) = 0.7"
  by (simp add: FTMapConfig_init_def)

lemma unnormalised_final:
  "weighted_consensus_clustering exact_floats (left_to_right_sum exact_floats) hd
     (FTMapConfig_init\<lparr>weights := [0.5, 0.3, 0.3]\<rparr>)
     [[0, 0, 0], [0, 0, 1], [0, 1, 1]] [0.5, 0.3, 0.3] = Inr [0, 0, 1]"
  apply (unfold weighted_consensus_clustering_def unnormalised_matrix unnormalised_threshold)
  apply (simp add: threshold_matrix_def distance_matrix_def np_ge_def
      agglomerative_precomputed_def upt_rec numeral_3_eq_3)
  apply (simp add: agglomerate.simps[of _ _ _ "[_, _, _]"] agglomerate.simps[of _ _ _ "[_, _]"]
      pick_pair_def closest_pairs_def cluster_pairs_def upt_rec average_linkage_def pair_dist_def
      merge_clusters_def labels_of_def find_cluster_def)
  done

lemma unnormalised_weights:
  "weights (FTMapConfig_init\<lparr>weights := [0.5, 0.3, 0.3]\<rparr>) = [0.5, 0.3, 0.3]"
  by simp

text \<open>
  C2, as stated, fails: the triple \<open>(0.5, 0.3, 0.3)\<close> sums to \<open>1.1\<close>; placed in the
  configuration it raises nothing, the matrix is built (each entry divided by \<open>1.1\<close>) and
  the clustering returns labels.
\<close>

theorem unnormalised_weights_accepted:
  "sum_list (weights (FTMapConfig_init\<lparr>weights := [0.5, 0.3, 0.3]\<rparr>)) = 1.1 \<and>
   left_to_right_sum exact_floats (weights (FTMapConfig_init\<lparr>weights := [0.5, 0.3, 0.3]\<rparr>))
     = Fin 1.1 \<and>
   consensus_matrix exact_floats (left_to_right_sum exact_floats)
       [[0, 0, 0], [0, 0, 1], [0, 1, 1]]
       (weights (FTMapConfig_init\<lparr>weights := [0.5, 0.3, 0.3]\<rparr>))
     = Inr [[Fin 0, Fin (8 / 11), Fin (5 / 11)],
            [Fin (8 / 11), Fin 0, Fin (8 / 11)],
            [Fin (5 / 11), Fin (8 / 11), Fin 0]] \<and>
   weighted_consensus_clustering exact_floats (left_to_right_sum exact_floats) hd
       (FTMapConfig_init\<lparr>weights := [0.5, 0.3, 0.3]\<rparr>)
       [[0, 0, 0], [0, 0, 1], [0, 1, 1]]
       (weights (FTMapConfig_init\<lparr>weights := [0.5, 0.3, 0.3]\<rparr>))
     = Inr [0, 0, 1]"
proof (unfold unnormalised_weights, intro conjI)
  show "sum_list [0.5, 0.3, 0.3] = (1.1 :: real)" by simp
  show "left_to_right_sum exact_floats [0.5, 0.3, 0.3] = Fin 1.1" by (rule unnormalised_sum)
  show "consensus_matrix exact_floats (left_to_right_sum exact_floats)
       [[0, 0, 0], [0, 0, 1], [0, 1, 1]] [0.5, 0.3, 0.3]
     = Inr [[Fin 0, Fin (8 / 11), Fin (5 / 11)],
            [Fin (8 / 11), Fin 0, Fin (8 / 11)],
            [Fin (5 / 11), Fin (8 / 11), Fin 0]]"
    by (rule unnormalised_matrix)
  show "weighted_consensus_clustering exact_floats (left_to_right_sum exact_floats) hd
       (FTMapConfig_init\<lparr>weights := [0.5, 0.3, 0.3]\<rparr>)
       [[0, 0, 0], [0, 0, 1], [0, 1, 1]] [0.5, 0.3, 0.3] = Inr [0, 0, 1]"
    by (rule unnormalised_final)
qed

subsection \<open>ClusteringEnsemble: properties of \<^verbatim>\<open>cluster_poses\<close>\<close>

lemma select_poses_length:
  "select_poses poses is = Inr ps \<Longrightarrow> length ps = length is"
  by (induction "is" arbitrary: ps) (auto split: sum.splits)

lemma make_cluster_props:
  assumes "make_cluster cfg poses ls label = Inr (Some c)"
  shows "cluster_id c \<noteq> - 1 \<and> cluster_id c = label \<and> length (poses_indices c) = size' c"
  using assms
  by (auto simp: make_cluster_def Let_def split: if_splits sum.splits dest: select_poses_length)

lemma collect_members:
  "collect f xs = Inr ys \<Longrightarrow> y \<in> set ys \<Longrightarrow> \<exists>x\<in>set xs. f x = Inr (Some y)"
  by (induction xs arbitrary: ys) (auto split: sum.splits option.splits)

lemma create_cluster_objects_props:
  assumes "create_cluster_objects rt cfg poses ls = Inr cs"
  shows "(\<forall>c\<in>set cs. cluster_id c \<noteq> - 1 \<and> length (poses_indices c) = size' c) \<and>
         sorted (map (\<lambda>c. - quality_score c) cs)"
proof -
  from assms obtain raw where raw:
    "collect (make_cluster cfg poses ls) (sort_key (set_rank rt) (remdups ls)) = Inr raw"
    "cs = sort_key (\<lambda>c. - quality_score c) raw"
    by (auto simp: create_cluster_objects_def Let_def split: sum.splits)
  have "cluster_id c \<noteq> - 1 \<and> length (poses_indices c) = size' c" if "c \<in> set cs" for c
  proof -
    from that raw(2) have "c \<in> set raw" by simp
    from collect_members[OF raw(1) this] show ?thesis using make_cluster_props by blast
  qed
  moreover have "sorted (map (\<lambda>c. - quality_score c) cs)"
    unfolding raw(2) by (rule sorted_sort_key)
  ultimately show ?thesis by blast
qed

text \<open>
  C10. Whatever the runtime and the libraries return: every cluster that \<^verbatim>\<open>cluster_poses\<close>
  returns has at least \<^verbatim>\<open>min_cluster_size\<close> members, an id other than the noise label \<open>-1\<close>,
  and as many pose indices as its size; the list is in non-increasing order of quality.
\<close>

theorem cluster_poses_output_invariant:
  assumes "cluster_poses rt cfg poses method = Inr cs"
  shows "(\<forall>c\<in>set cs. min_cluster_size cfg \<le> int (size' c) \<and> cluster_id c \<noteq> - 1 \<and>
            length (poses_indices c) = size' c) \<and>
         sorted_wrt (\<lambda>c c'. quality_score c' \<le> quality_score c) cs"
proof (cases "length poses < 3")
  case True
  then show ?thesis using assms by (simp add: cluster_poses_def)
next
  case False
  then obtain ls raw where raw: "create_cluster_objects rt cfg poses ls = Inr raw"
    "cs = filter (\<lambda>c. min_cluster_size cfg \<le> int (size' c)) raw"
    using assms by (auto simp: cluster_poses_def Let_def split: sum.splits if_splits)
  note p = create_cluster_objects_props[OF raw(1)]
  have "sorted_wrt (\<lambda>c c'. quality_score c' \<le> quality_score c) raw"
    using p by (simp add: sorted_map sorted_wrt_iff_nth_less)
  then have "sorted_wrt (\<lambda>c c'. quality_score c' \<le> quality_score c) cs"
    unfolding raw(2) by (rule sorted_wrt_filter)
  then show ?thesis using p raw(2) by auto
qed

lemma length_prepare_clustering_features:
  "length (prepare_clustering_features rt poses) = length poses"
  by (simp add: prepare_clustering_features_def StandardScaler_fit_transform_def)

lemma example_cluster_poses:
  "cluster_poses example_runtime FTMapConfig_init example_poses ''dbscan'' =
     Inr [\<lparr> cluster_id = 0, poses_indices = [0, 1, 2, 3, 4], center = (1, 2, 3), size' = 5,
            density = 5000000, avg_affinity = - 1, probe_diversity = 1,
            quality_score = 37 / 90 \<rparr>]"
  by (simp add: cluster_poses_def length_prepare_clustering_features example_poses_def
      example_runtime_def dbscan_clustering_def silhouette_score_check_def FTMapConfig_init_def
      create_cluster_objects_def make_cluster_def np_get_def example_pose_def
      calculate_cluster_quality_def calculate_cluster_center_def calculate_cluster_density_def
      np_mean_def euclidean_def upt_rec numeral_eq_Suc nth_append)

text \<open>Six poses, of which DBSCAN groups the first five; one cluster is returned.\<close>

theorem cluster_poses_output_invariant_witness:
  "cluster_poses example_runtime FTMapConfig_init example_poses ''dbscan'' =
     Inr [\<lparr> cluster_id = 0, poses_indices = [0, 1, 2, 3, 4], center = (1, 2, 3), size' = 5,
            density = 5000000, avg_affinity = - 1, probe_diversity = 1,
            quality_score = 37 / 90 \<rparr>] \<and>
   min_cluster_size FTMapConfig_init \<le> int (5 :: nat) \<and>
   length [0, 1, 2, 3, 4 :: nat] = 5"
  using cluster_poses_output_invariant[OF example_cluster_poses] example_cluster_poses
  by simp







text \<open>When every label is \<open>-1\<close>, no cluster is made.\<close>

lemma all_noise_remdups:
  assumes "set ls \<subseteq> {- 1 :: int}"
  shows "remdups ls = [] \<or> remdups ls = [- 1]"
proof (cases "ls = []")
  case True
  then show ?thesis by simp
next
  case False
  then have "set (remdups ls) = {- 1}" using assms by (cases ls) auto
  moreover have "distinct (remdups ls)" by simp
  ultimately have "length (remdups ls) = 1" using distinct_card[of "remdups ls"] by simp
  then obtain x where "remdups ls = [x]" by (cases "remdups ls") auto
  then show ?thesis using \<open>set (remdups ls) = {- 1}\<close> by auto
qed

lemma all_noise_no_clusters:
  assumes "set ls \<subseteq> {- 1}"
  shows "create_cluster_objects rt cfg poses ls = Inr []"
  using all_noise_remdups[OF assms]
  by (auto simp: create_cluster_objects_def make_cluster_def)

lemma dbscan_only_value_error:
  "dbscan_clustering rt cfg X = Inl e \<Longrightarrow> e = ValueError"
  by (auto simp: dbscan_clustering_def silhouette_score_check_def Let_def split: if_splits)

lemma hierarchical_clustering_too_few:
  assumes "length X < hierarchical_n_clusters cfg"
  shows "hierarchical_clustering rt cfg X = Inl ValueError"
  using assms by (simp add: hierarchical_clustering_def AgglomerativeClustering_ward_def)

lemma agglomerative_clustering_too_few:
  assumes "length X < agglomerative_n_clusters cfg"
  shows "agglomerative_clustering rt cfg X = Inl ValueError"
  using assms by (simp add: agglomerative_clustering_def AgglomerativeClustering_ward_def)

lemma ensemble_clustering_too_few:
  assumes "length X < hierarchical_n_clusters cfg"
  shows "ensemble_clustering rt cfg X = Inl ValueError"
proof (cases "dbscan_clustering rt cfg X")
  case (Inl e)
  then show ?thesis using dbscan_only_value_error[OF Inl] by (simp add: ensemble_clustering_def)
next
  case (Inr ls)
  then show ?thesis
    using hierarchical_clustering_too_few[OF assms] by (simp add: ensemble_clustering_def)
qed

text \<open>
  C4, as the code has it. What the code does with few poses depends on the algorithm.
  \<^verbatim>\<open>cluster_poses\<close> returns no cluster for fewer than three poses, whatever the method.
  \<^verbatim>\<open>_dbscan_clustering\<close> hands on the labels of DBSCAN, without raising, whenever they
  hold at most one distinct label; when they are all \<open>-1\<close>, \<^verbatim>\<open>cluster_poses\<close> returns no
  cluster. \<^verbatim>\<open>_hierarchical_clustering\<close> and \<^verbatim>\<open>_agglomerative_clustering\<close> raise
  \<^verbatim>\<open>ValueError\<close> for fewer samples than \<^verbatim>\<open>n_clusters\<close>, and so does \<^verbatim>\<open>cluster_poses\<close> with
  the methods \<^verbatim>\<open>'hierarchical'\<close> and \<^verbatim>\<open>'ensemble'\<close> from three poses on: no all-noise label
  set is returned there.
\<close>

theorem few_poses_noise_or_value_error:
  "(length poses < 3 \<longrightarrow> cluster_poses rt cfg poses method = Inr []) \<and>
   (length (remdups (DBSCAN_fit_predict rt (dbscan_eps cfg) (dbscan_min_samples cfg) X)) \<le> 1 \<longrightarrow>
      dbscan_clustering rt cfg X
        = Inr (DBSCAN_fit_predict rt (dbscan_eps cfg) (dbscan_min_samples cfg) X)) \<and>
   (set (DBSCAN_fit_predict rt (dbscan_eps cfg) (dbscan_min_samples cfg)
           (prepare_clustering_features rt poses)) \<subseteq> {- 1} \<longrightarrow>
      cluster_poses rt cfg poses ''dbscan'' = Inr []) \<and>
   (length X < hierarchical_n_clusters cfg \<longrightarrow>
      hierarchical_clustering rt cfg X = Inl ValueError) \<and>
   (length X < agglomerative_n_clusters cfg \<longrightarrow>
      agglomerative_clustering rt cfg X = Inl ValueError) \<and>
   (3 \<le> length poses \<and> length poses < hierarchical_n_clusters cfg \<longrightarrow>
      cluster_poses rt cfg poses ''hierarchical'' = Inl ValueError \<and>
      cluster_poses rt cfg poses ''ensemble'' = Inl ValueError)"
proof (intro conjI impI)
  assume "length poses < 3"
  then show "cluster_poses rt cfg poses method = Inr []" by (simp add: cluster_poses_def)
next
  assume "length (remdups (DBSCAN_fit_predict rt (dbscan_eps cfg) (dbscan_min_samples cfg) X)) \<le> 1"
  then show "dbscan_clustering rt cfg X
      = Inr (DBSCAN_fit_predict rt (dbscan_eps cfg) (dbscan_min_samples cfg) X)"
    by (simp add: dbscan_clustering_def Let_def)
next
  let ?X = "prepare_clustering_features rt poses"
  let ?ls = "DBSCAN_fit_predict rt (dbscan_eps cfg) (dbscan_min_samples cfg) ?X"
  assume noise: "set ?ls \<subseteq> {- 1}"
  have "length (remdups ?ls) \<le> 1" using all_noise_remdups[OF noise] by auto
  then have "dbscan_clustering rt cfg ?X = Inr ?ls" by (simp add: dbscan_clustering_def Let_def)
  then show "cluster_poses rt cfg poses ''dbscan'' = Inr []"
    using all_noise_no_clusters[OF noise] by (simp add: cluster_poses_def Let_def)
next
  assume "length X < hierarchical_n_clusters cfg"
  then show "hierarchical_clustering rt cfg X = Inl ValueError"
    by (rule hierarchical_clustering_too_few)
next
  assume "length X < agglomerative_n_clusters cfg"
  then show "agglomerative_clustering rt cfg X = Inl ValueError"
    by (rule agglomerative_clustering_too_few)
next
  assume a: "3 \<le> length poses \<and> length poses < hierarchical_n_clusters cfg"
  then have few: "length (prepare_clustering_features rt poses) < hierarchical_n_clusters cfg"
    by (simp add: length_prepare_clustering_features)
  show "cluster_poses rt cfg poses ''hierarchical'' = Inl ValueError"
    using a hierarchical_clustering_too_few[OF few] by (simp add: cluster_poses_def Let_def)
next
  assume a: "3 \<le> length poses \<and> length poses < hierarchical_n_clusters cfg"
  then have few: "length (prepare_clustering_features rt poses) < hierarchical_n_clusters cfg"
    by (simp add: length_prepare_clustering_features)
  show "cluster_poses rt cfg poses ''ensemble'' = Inl ValueError"
    using a ensemble_clustering_too_few[OF few] by (simp add: cluster_poses_def Let_def)
qed

text \<open>
  Two and four of the example poses, with the default configuration, and a DBSCAN that
  marks every pose as noise.
\<close>

definition noise_runtime :: runtime where
  "noise_runtime =
     example_runtime\<lparr>DBSCAN_fit_predict := (\<lambda>eps min_samples X. replicate (length X) (- 1))\<rparr>"

theorem few_poses_noise_or_value_error_witness:
  "length (take 2 example_poses) < 3 \<and>
   cluster_poses noise_runtime FTMapConfig_init (take 2 example_poses) ''hierarchical'' = Inr [] \<and>
   set (DBSCAN_fit_predict noise_runtime (dbscan_eps FTMapConfig_init)
          (dbscan_min_samples FTMapConfig_init)
          (prepare_clustering_features noise_runtime (take 4 example_poses))) \<subseteq> {- 1} \<and>
   cluster_poses noise_runtime FTMapConfig_init (take 4 example_poses) ''dbscan'' = Inr [] \<and>
   3 \<le> length (take 4 example_poses) \<and>
   length (take 4 example_poses) < hierarchical_n_clusters FTMapConfig_init \<and>
   cluster_poses noise_runtime FTMapConfig_init (take 4 example_poses) ''hierarchical''
     = Inl ValueError \<and>
   cluster_poses noise_runtime FTMapConfig_init (take 4 example_poses) ''ensemble''
     = Inl ValueError"
proof -
  have n2: "length (take 2 example_poses) < 3" by (simp add: example_poses_def)
  have n4: "3 \<le> length (take 4 example_poses) \<and>
      length (take 4 example_poses) < hierarchical_n_clusters FTMapConfig_init"
    by (simp add: example_poses_def FTMapConfig_init_def)
  have noise: "set (DBSCAN_fit_predict noise_runtime (dbscan_eps FTMapConfig_init)
          (dbscan_min_samples FTMapConfig_init)
          (prepare_clustering_features noise_runtime (take 4 example_poses))) \<subseteq> {- 1}"
    by (auto simp: noise_runtime_def)
  note t2 = few_poses_noise_or_value_error
    [of "take 2 example_poses" noise_runtime FTMapConfig_init "''hierarchical''" "[]"]
  note t4 = few_poses_noise_or_value_error
    [of "take 4 example_poses" noise_runtime FTMapConfig_init "''hierarchical''" "[]"]
  show ?thesis using t2 t4 n2 n4 noise by blast
qed

text \<open>
  C4, as stated, fails: four poses are fewer than the ten clusters the hierarchical
  algorithm is asked for; the library raises \<^verbatim>\<open>ValueError\<close>, which neither
  \<^verbatim>\<open>_hierarchical_clustering\<close> nor \<^verbatim>\<open>cluster_poses\<close> catches. No label set is returned.
\<close>

theorem hierarchical_raises_on_four_poses:
  "length (take 4 example_poses) < hierarchical_n_clusters FTMapConfig_init \<and>
   hierarchical_clustering example_runtime FTMapConfig_init
     (prepare_clustering_features example_runtime (take 4 example_poses)) = Inl ValueError \<and>
   cluster_poses example_runtime FTMapConfig_init (take 4 example_poses) ''hierarchical''
     = Inl ValueError"
proof -
  have n: "length (take 4 example_poses) = 4" by (simp add: example_poses_def)
  have k: "hierarchical_n_clusters FTMapConfig_init = 10" by (simp add: FTMapConfig_init_def)
  have h: "hierarchical_clustering example_runtime FTMapConfig_init
     (prepare_clustering_features example_runtime (take 4 example_poses)) = Inl ValueError"
    by (rule hierarchical_clustering_too_few) (simp add: length_prepare_clustering_features n k)
  have "cluster_poses example_runtime FTMapConfig_init (take 4 example_poses) ''hierarchical''
     = Inl ValueError"
    using n by (simp add: cluster_poses_def h)
  then show ?thesis using n k h by simp
qed

subsection \<open>FeatureExtractor: unknown probes\<close>

lemma chem_fold:
  "fold (chem_step table) names acc =
     \<lparr> hydrophobic_count = hydrophobic_count acc + count_known table is_hydrophobic names,
       polar_count = polar_count acc + count_known table polar names,
       aromatic_count = aromatic_count acc + count_known table aromatic names,
       charged_count = charged_count acc + count_known table charged names,
       molecular_weights = molecular_weights acc @ map (mw_or_default table) names,
       logp_values = logp_values acc @ map (logp_or_default table) names,
       polar_surface_areas = polar_surface_areas acc @ map (psa_or_default table) names \<rparr>"
proof (induction names arbitrary: acc)
  case Nil
  then show ?case by (simp add: count_known_def)
next
  case (Cons name names)
  show ?case
    by (cases "table name")
      (simp_all add: Cons.IH chem_step_def[of table name acc] count_known_def mw_or_default_def
        logp_or_default_def psa_or_default_def is_hydrophobic_def)
qed

lemma inter_fold:
  "fold (inter_step table) poses acc =
     \<lparr> h_bond_donors = h_bond_donors acc + sum_list (map hbd (known_props table poses)),
       h_bond_acceptors = h_bond_acceptors acc + sum_list (map hba (known_props table poses)),
       vdw_interactions = vdw_interactions acc
         + sum_list (map (\<lambda>props. molecular_weight props * 0.01) (known_props table poses)),
       electrostatic_potential = electrostatic_potential acc
         + sum_list (map dipole (known_props table poses)),
       pi_stacking_potential = pi_stacking_potential acc
         + real (length (filter aromatic (known_props table poses))),
       hydrophobic_surface = hydrophobic_surface acc
         + sum_list (map (\<lambda>props. molecular_weight props * 0.1)
             (filter is_hydrophobic (known_props table poses))) \<rparr>"
proof (induction poses arbitrary: acc)
  case Nil
  then show ?case by (simp add: known_props_def map_filter_simps)
next
  case (Cons pose poses)
  show ?case
    by (cases "table (probe_name pose)")
      (simp_all add: Cons.IH inter_step_def[of table pose acc] known_props_def map_filter_simps
        is_hydrophobic_def)
qed

text \<open>
  C9, as the code has it. In the chemical features a probe that is not in the table
  contributes the defaults \<open>50.0\<close>, \<open>0.0\<close> and \<open>20.0\<close> to the three averages and nothing to
  the four type counts; in the interaction features it contributes nothing to any sum,
  while it still counts in the number of poses that two of the sums are divided by.
  Neither function can raise.
\<close>

theorem unknown_probe_contributions:
  "extract_enhanced_chemical_features table poses =
     [(''probe_diversity'', Fin (real (length (remdups (map probe_name poses))))),
      (''hydrophobic_count'', Fin (real (count_known table is_hydrophobic (map probe_name poses)))),
      (''polar_count'', Fin (real (count_known table polar (map probe_name poses)))),
      (''aromatic_count'', Fin (real (count_known table aromatic (map probe_name poses)))),
      (''charged_count'', Fin (real (count_known table charged (map probe_name poses)))),
      (''molecular_weight_avg'', np_mean_f (map (mw_or_default table) (map probe_name poses))),
      (''logp_avg'', np_mean_f (map (logp_or_default table) (map probe_name poses))),
      (''polar_surface_area'', np_mean_f (map (psa_or_default table) (map probe_name poses)))] \<and>
   extract_enhanced_interaction_features table poses =
     [(''hydrogen_bond_donors'', Fin (real_of_int (sum_list (map hbd (known_props table poses))))),
      (''hydrogen_bond_acceptors'', Fin (real_of_int (sum_list (map hba (known_props table poses))))),
      (''vdw_interactions'',
         Fin (if 0 < length poses
              then sum_list (map (\<lambda>props. molecular_weight props * 0.01) (known_props table poses))
                     / real (length poses)
              else 0)),
      (''electrostatic_potential'', Fin (sum_list (map dipole (known_props table poses)))),
      (''pi_stacking_potential'', Fin (real (length (filter aromatic (known_props table poses))))),
      (''hydrophobic_surface'',
         Fin (if 0 < length poses
              then sum_list (map (\<lambda>props. molecular_weight props * 0.1)
                       (filter is_hydrophobic (known_props table poses))) / real (length poses)
              else 0))]"
proof
  show "extract_enhanced_chemical_features table poses =
     [(''probe_diversity'', Fin (real (length (remdups (map probe_name poses))))),
      (''hydrophobic_count'', Fin (real (count_known table is_hydrophobic (map probe_name poses)))),
      (''polar_count'', Fin (real (count_known table polar (map probe_name poses)))),
      (''aromatic_count'', Fin (real (count_known table aromatic (map probe_name poses)))),
      (''charged_count'', Fin (real (count_known table charged (map probe_name poses)))),
      (''molecular_weight_avg'', np_mean_f (map (mw_or_default table) (map probe_name poses))),
      (''logp_avg'', np_mean_f (map (logp_or_default table) (map probe_name poses))),
      (''polar_surface_area'', np_mean_f (map (psa_or_default table) (map probe_name poses)))]"
    by (simp add: extract_enhanced_chemical_features_def Let_def chem_fold chem_init_def)
next
  have empty: "known_props table [] = []" by (simp add: known_props_def map_filter_simps)
  show "extract_enhanced_interaction_features table poses =
     [(''hydrogen_bond_donors'', Fin (real_of_int (sum_list (map hbd (known_props table poses))))),
      (''hydrogen_bond_acceptors'', Fin (real_of_int (sum_list (map hba (known_props table poses))))),
      (''vdw_interactions'',
         Fin (if 0 < length poses
              then sum_list (map (\<lambda>props. molecular_weight props * 0.01) (known_props table poses))
                     / real (length poses)
              else 0)),
      (''electrostatic_potential'', Fin (sum_list (map dipole (known_props table poses)))),
      (''pi_stacking_potential'', Fin (real (length (filter aromatic (known_props table poses))))),
      (''hydrophobic_surface'',
         Fin (if 0 < length poses
              then sum_list (map (\<lambda>props. molecular_weight props * 0.1)
                       (filter is_hydrophobic (known_props table poses))) / real (length poses)
              else 0))]"
    by (auto simp: extract_enhanced_interaction_features_def Let_def inter_fold inter_init_def
        empty)
qed

lemma xenon_unknown: "map_of initialize_enhanced_probe_properties ''xenon'' = None"
  by (simp add: initialize_enhanced_probe_properties_def)

lemma benzene_known:
  "map_of initialize_enhanced_probe_properties ''benzene''
     = Some (ProbeProperties_init 78.11 2.13 0 0 0.0 0.0 True False False)"
  by (simp add: initialize_enhanced_probe_properties_def)

text \<open>
  A pose of benzene and a pose of a probe that the table does not have.
\<close>

theorem unknown_probe_contributions_witness:
  "extract_enhanced_chemical_features (map_of initialize_enhanced_probe_properties)
       [example_pose ''benzene'' (- 1), example_pose ''xenon'' (- 2)] =
     [(''probe_diversity'', Fin 2), (''hydrophobic_count'', Fin 0), (''polar_count'', Fin 0),
      (''aromatic_count'', Fin 1), (''charged_count'', Fin 0),
      (''molecular_weight_avg'', Fin 64.055), (''logp_avg'', Fin 1.065),
      (''polar_surface_area'', Fin 10)] \<and>
   extract_enhanced_interaction_features (map_of initialize_enhanced_probe_properties)
       [example_pose ''benzene'' (- 1), example_pose ''xenon'' (- 2)] =
     [(''hydrogen_bond_donors'', Fin 0), (''hydrogen_bond_acceptors'', Fin 0),
      (''vdw_interactions'', Fin 0.39055), (''electrostatic_potential'', Fin 0),
      (''pi_stacking_potential'', Fin 1), (''hydrophobic_surface'', Fin 0)]"
  using unknown_probe_contributions
    [of "map_of initialize_enhanced_probe_properties"
        "[example_pose ''benzene'' (- 1), example_pose ''xenon'' (- 2)]"]
  by (simp add: example_pose_def xenon_unknown benzene_known count_known_def is_hydrophobic_def
      mw_or_default_def logp_or_default_def psa_or_default_def known_props_def map_filter_simps
      np_mean_f_def np_divide_def ProbeProperties_init_def)

text \<open>
  C9, as stated, fails for the interaction features: for a single pose of an unknown
  probe the van-der-Waals feature is \<open>0\<close>, whereas the documented default molecular
  weight \<open>50.0\<close> would give \<open>50.0 * 0.01 = 0.5\<close>.
\<close>

theorem unknown_probe_adds_no_vdw:
  "map_of initialize_enhanced_probe_properties ''xenon'' = None \<and>
   extract_enhanced_interaction_features (map_of initialize_enhanced_probe_properties)
       [example_pose ''xenon'' (- 2)] =
     [(''hydrogen_bond_donors'', Fin 0), (''hydrogen_bond_acceptors'', Fin 0),
      (''vdw_interactions'', Fin 0), (''electrostatic_potential'', Fin 0),
      (''pi_stacking_potential'', Fin 0), (''hydrophobic_surface'', Fin 0)] \<and>
   vdw_with_default_weight (map_of initialize_enhanced_probe_properties)
       [example_pose ''xenon'' (- 2)] = Fin 0.5"
  by (simp add: xenon_unknown extract_enhanced_interaction_features_def inter_step_def
      inter_init_def example_pose_def vdw_with_default_weight_def mw_or_default_def np_mean_f_def
      np_divide_def)

subsection \<open>FeatureExtractor: the constructor call of \<^verbatim>\<open>_extract_single_cluster_features\<close>\<close>

lemma probe_agreement_is_field: "''probe_agreement'' \<in> set ClusterFeatures_fields"
  by (simp add: ClusterFeatures_fields_def ClusterFeatures_annotations_def)

lemma energy_keys:
  "extract_energy_features a = Inr d \<Longrightarrow>
   map fst d = [''mean_affinity'', ''std_affinity'', ''min_affinity'', ''max_affinity'',
                ''energy_range'']"
  by (auto simp: extract_energy_features_def split: if_splits)

lemma spatial_keys:
  "extract_enhanced_spatial_features lib ps = Inr d \<Longrightarrow>
   map fst d = [''center_x'', ''center_y'', ''center_z'', ''spatial_spread'', ''volume'',
                ''compactness'', ''surface_area'', ''aspect_ratio'', ''radial_distribution'']"
  by (auto simp: extract_enhanced_spatial_features_def Let_def split: if_splits)

lemma chemical_keys:
  "map fst (extract_enhanced_chemical_features table ps) =
     [''probe_diversity'', ''hydrophobic_count'', ''polar_count'', ''aromatic_count'',
      ''charged_count'', ''molecular_weight_avg'', ''logp_avg'', ''polar_surface_area'']"
  by (simp add: extract_enhanced_chemical_features_def Let_def)

lemma interaction_keys:
  "map fst (extract_enhanced_interaction_features table ps) =
     [''hydrogen_bond_donors'', ''hydrogen_bond_acceptors'', ''vdw_interactions'',
      ''electrostatic_potential'', ''pi_stacking_potential'', ''hydrophobic_surface'']"
  by (simp add: extract_enhanced_interaction_features_def Let_def)

lemma consensus_keys:
  "map fst (extract_enhanced_consensus_features ps all_poses) = [''consensus_density'']"
  by (simp add: extract_enhanced_consensus_features_def)

text \<open>
  The keyword arguments that \<^verbatim>\<open>_extract_single_cluster_features\<close> passes to the
  constructor are the cluster id and the 29 features, in the order of \<^verbatim>\<open>_features_to_dict\<close>.
\<close>

lemma supplied_keys:
  assumes "extract_energy_features a = Inr e" "extract_enhanced_spatial_features lib ps = Inr sp"
  shows "map fst ((''cluster_id'', v) # e @ sp
            @ extract_enhanced_chemical_features table ps
            @ extract_enhanced_interaction_features table ps
            @ extract_enhanced_consensus_features ps all_poses) = features_dict_keys"
  using energy_keys[OF assms(1)] spatial_keys[OF assms(2)]
  by (simp add: chemical_keys interaction_keys consensus_keys features_dict_keys_def)

lemma probe_agreement_not_supplied: "''probe_agreement'' \<notin> set features_dict_keys"
  by (simp add: features_dict_keys_def)

lemma ClusterFeatures_init_missing:
  assumes "map fst kwargs = features_dict_keys"
  shows "ClusterFeatures_init kwargs = Inl TypeError"
proof -
  have "\<not> set ClusterFeatures_fields \<subseteq> set (map fst kwargs)"
    using probe_agreement_is_field probe_agreement_not_supplied assms by auto
  then show ?thesis by (auto simp: ClusterFeatures_init_def Let_def)
qed

text \<open>
  The dataclass still declares \<^verbatim>\<open>probe_agreement\<close>, \<^verbatim>\<open>energy_consensus\<close>,
  \<^verbatim>\<open>spatial_consensus\<close>, \<^verbatim>\<open>rmsd_mean\<close> and \<^verbatim>\<open>pose_count\<close>, for which no argument is passed: for
  every non-empty cluster the constructor raises \<^verbatim>\<open>TypeError\<close>.
\<close>

lemma single_cluster_features_raise:
  assumes "ps \<noteq> []"
  shows "extract_single_cluster_features lib table c ps all_poses = Inl TypeError"
proof -
  obtain e where e: "extract_energy_features (map affinity ps) = Inr e"
    using assms by (simp add: extract_energy_features_def)
  obtain sp where sp: "extract_enhanced_spatial_features lib ps = Inr sp"
    using assms by (simp add: extract_enhanced_spatial_features_def Let_def)
  show ?thesis
    unfolding extract_single_cluster_features_def e sp
    using ClusterFeatures_init_missing[OF supplied_keys[OF e sp]] by simp
qed

lemma single_cluster_features_never_return:
  "extract_single_cluster_features lib table c ps all_poses \<noteq> Inr features"
proof (cases "ps = []")
  case True
  then show ?thesis
    by (simp add: extract_single_cluster_features_def extract_energy_features_def)
next
  case False
  then show ?thesis by (simp add: single_cluster_features_raise)
qed

text \<open>
  So \<^verbatim>\<open>extract_cluster_features\<close> returns only for an empty list of clusters.
\<close>

lemma extract_cluster_features_returns_only_empty:
  assumes "extract_cluster_features lib table clusters all_poses = Inr rows"
  shows "clusters = [] \<and> rows = []"
proof (cases clusters)
  case Nil
  then show ?thesis using assms by (simp add: extract_cluster_features_def)
next
  case (Cons c cs)
  then show ?thesis
    using assms single_cluster_features_never_return[of lib table c _ all_poses]
    by (auto simp: extract_cluster_features_def split: sum.splits)
qed

text \<open>
  C8. The claim: every surviving cluster gets a finalized vector of exactly 29 named
  entries. On the cluster of the first five example poses the code raises \<^verbatim>\<open>TypeError\<close>
  and no vector is produced.
\<close>

theorem extract_cluster_features_raises_type_error:
  "extract_cluster_features example_geometry (map_of initialize_enhanced_probe_properties)
     [example_cluster] example_poses = Inl TypeError"
proof -
  have sel: "select_poses example_poses (poses_indices example_cluster)
               = Inr (replicate 5 (example_pose ''benzene'' (- 1)))"
    by (simp add: example_cluster_def example_poses_def np_get_def numeral_eq_Suc nth_append)
  have "replicate 5 (example_pose ''benzene'' (- 1)) \<noteq> []" by simp
  from single_cluster_features_raise[OF this]
  show ?thesis by (simp add: extract_cluster_features_def sel)
qed

section \<open>\<^verbatim>\<open>ftmap_enhanced_algorithm.py\<close>: the random generator\<close>

subsection \<open>numpy's global random generator\<close>

text \<open>
  The state of \<^verbatim>\<open>np.random\<close> is made explicit: the sequence of the uniform draws in
  \<open>[0, 1)\<close> that it will produce, and the position in that sequence. The module sets no
  seed, so the state at a call is whatever the process has. \<^verbatim>\<open>np.random.uniform(lo, hi)\<close>
  is \<open>lo + (hi - lo) * u\<close> for the next draw \<open>u\<close>, computed in doubles: the difference,
  the product and the sum are each rounded, so different draws can give one value. A
  difference that is not a number raises \<^verbatim>\<open>OverflowError\<close> before anything is drawn.
\<close>

record rng =
  rng_draws :: "nat \<Rightarrow> real"
  rng_pos :: nat

definition np_random_uniform ::
  "floats \<Rightarrow> real \<Rightarrow> real \<Rightarrow> rng \<Rightarrow> (error + npfloat) \<times> rng" where
  "np_random_uniform F lo hi g =
     (case fl F (hi - lo) of
        Fin fscale \<Rightarrow>
          (Inr (float_add F (Fin lo) (float_mul F (Fin fscale) (Fin (rng_draws g (rng_pos g))))),
           g\<lparr>rng_pos := Suc (rng_pos g)\<rparr>)
      | _ \<Rightarrow> (Inl OverflowError, g))"

subsection \<open>The accessibility and consensus helpers of \<^verbatim>\<open>extract_cluster_features\<close>\<close>






definition calculate_consensus_score ::
  "floats \<Rightarrow> 'pose list \<Rightarrow> rng \<Rightarrow> (error + npfloat) \<times> rng" where
  "calculate_consensus_score F members g = np_random_uniform F 0.4 0.95 g"


text \<open>
  Two generators for the concrete instances: the draws \<open>1/2, 1/3, 1/4, \<dots>\<close> from a
  position on, and a generator that is one position behind on a sequence that starts one
  draw earlier.
\<close>

definition example_rng :: "nat \<Rightarrow> rng" where
  "example_rng k = \<lparr> rng_draws = (\<lambda>n. 1 / (real n + 2)), rng_pos = k \<rparr>"


subsection \<open>The random features of \<^verbatim>\<open>extract_cluster_features\<close>\<close>

lemma uniform_value:
  "rng_draws g (rng_pos g) = rng_draws g' (rng_pos g') \<Longrightarrow>
   fst (np_random_uniform F lo hi g) = fst (np_random_uniform F lo hi g')"
  by (simp add: np_random_uniform_def split: npfloat.splits)

lemma uniform_state:
  "rng_draws (snd (np_random_uniform F lo hi g)) = rng_draws g \<and>
   (\<forall>v. fst (np_random_uniform F lo hi g) = Inr v \<longrightarrow>
      rng_pos (snd (np_random_uniform F lo hi g)) = Suc (rng_pos g))"
  by (simp add: np_random_uniform_def split: npfloat.splits)




text \<open>
  The sample draw is not the only randomness of the pipeline.
  \<^verbatim>\<open>_calculate_consensus_score\<close>, which enters the combined score and the final rank, is
  drawn from the same unseeded generator: on the same poses it is \<open>0.675\<close> in one
  generator state and \<open>0.5375\<close> in another (in an arithmetic without rounding error).
\<close>

theorem consensus_score_depends_on_generator:
  "fst (calculate_consensus_score exact_floats example_poses (example_rng 0))
     = Inr (Fin 0.675) \<and>
   fst (calculate_consensus_score exact_floats example_poses (example_rng 2))
     = Inr (Fin 0.5375)"
  by (simp add: calculate_consensus_score_def np_random_uniform_def example_rng_def
      float_add_def float_mul_def fl_def exact_floats_def)

section \<open>\<^verbatim>\<open>ftmap_enhanced_algorithm.py\<close>: \<^verbatim>\<open>_ensemble_clustering\<close>\<close>

text \<open>
  Library results, as parameters: the indices that \<^verbatim>\<open>np.random.choice(n, size=5000,
  replace=False)\<close> draws in a generator state (and the state it leaves), the index of the
  nearest sampled position for every position (\<^verbatim>\<open>NearestNeighbors(n_neighbors=1)\<close>), and the
  flat clusters that scipy's average linkage gives at distance \<open>0.7\<close>, \<open>None\<close> when it
  raises (the source catches every exception there).
\<close>

record sampling_lib =
  random_choice :: "rng \<Rightarrow> nat \<Rightarrow> nat \<Rightarrow> nat list \<times> rng"
  kneighbors :: "(real \<times> real \<times> real) list \<Rightarrow> (real \<times> real \<times> real) list \<Rightarrow> nat list"
  linkage_fcluster :: "npfloat list list \<Rightarrow> real \<Rightarrow> labels option"

text \<open>\<open>1 - x\<close> and \<open>==\<close> on numpy floats; a NaN equals nothing.\<close>

definition np_one_minus :: "npfloat \<Rightarrow> npfloat" where
  "np_one_minus x = (case x of Fin r \<Rightarrow> Fin (1 - r) | PosInf \<Rightarrow> NegInf | NegInf \<Rightarrow> PosInf | NaN \<Rightarrow> NaN)"

definition np_eq :: "npfloat \<Rightarrow> npfloat \<Rightarrow> bool" where
  "np_eq x y \<longleftrightarrow> x \<noteq> NaN \<and> x = y"

text \<open>
  \<^verbatim>\<open>squareform\<close> checks a square matrix with \<^verbatim>\<open>is_valid_dm\<close>: it must be symmetric and its
  diagonal zero, else \<^verbatim>\<open>ValueError\<close>.
\<close>

definition is_valid_dm :: "npfloat list list \<Rightarrow> bool" where
  "is_valid_dm D \<longleftrightarrow>
     list_all (\<lambda>i. list_all (\<lambda>j. np_eq (D ! i ! j) (D ! j ! i)) [0..<length D]) [0..<length D] \<and>
     list_all (\<lambda>i. np_eq (D ! i ! i) (Fin 0)) [0..<length D]"

text \<open>\<^verbatim>\<open>{method: labels[indices] for method, labels in clusters_results.items()}\<close>\<close>

fun select_results :: "(string \<times> labels) list \<Rightarrow> nat list \<Rightarrow> error + (string \<times> labels) list" where
  "select_results [] idx = Inr []"
| "select_results ((method, ls) # rest) idx =
     (case select_poses ls idx of
        Inl e \<Rightarrow> Inl e
      | Inr sampled \<Rightarrow>
          (case select_results rest idx of
             Inl e \<Rightarrow> Inl e
           | Inr r \<Rightarrow> Inr ((method, sampled) # r)))"

text \<open>
  Fewer than 1000 poses: the co-association counts (small integers, which doubles add
  exactly), divided by the number of label sets;
  inside \<^verbatim>\<open>try\<close>, the distance \<open>1 - co_association\<close> goes through \<^verbatim>\<open>squareform\<close>, \<^verbatim>\<open>linkage\<close>
  and \<^verbatim>\<open>fcluster\<close>; on any exception the labels are those of \<^verbatim>\<open>'hierarchical'\<close>, or
  \<^verbatim>\<open>np.arange(n_samples)\<close>.
\<close>

definition co_association_consensus ::
  "sampling_lib \<Rightarrow> (string \<times> labels) list \<Rightarrow> nat \<Rightarrow> error + labels" where
  "co_association_consensus lib clusters_results n_samples =
     (case for_each (map (\<lambda>(method, ls). (ls, 1)) clusters_results)
             (accumulate_labels (+) n_samples) (zeros n_samples) of
        Inl e \<Rightarrow> Inl e
      | Inr counts \<Rightarrow>
          (let co_association =
                 map (map (\<lambda>x. np_divide x (real (length clusters_results)))) counts;
               distance = map (map np_one_minus) co_association;
               fallback = (case map_of clusters_results ''hierarchical'' of
                             Some ls \<Rightarrow> ls
                           | None \<Rightarrow> map int [0..<n_samples])
           in Inr (if is_valid_dm distance
                   then (case linkage_fcluster lib distance 0.7 of
                           Some ls \<Rightarrow> ls
                         | None \<Rightarrow> fallback)
                   else fallback)))"

text \<open>From 1000 to 10000 poses: one label per non-empty cell of a \<open>19 \<times> 19 \<times> 19\<close> grid.\<close>

definition linspace :: "real \<Rightarrow> real \<Rightarrow> nat \<Rightarrow> real list" where
  "linspace a b num = map (\<lambda>i. a + real i * ((b - a) / real (num - 1))) [0..<num]"

definition in_cell ::
  "real list \<Rightarrow> real list \<Rightarrow> real list \<Rightarrow> nat \<times> nat \<times> nat \<Rightarrow> real \<times> real \<times> real \<Rightarrow> bool" where
  "in_cell x_bins y_bins z_bins cell p =
     (case cell of (i, j, k) \<Rightarrow> case p of (x, y, z) \<Rightarrow>
        x_bins ! i \<le> x \<and> x < x_bins ! Suc i \<and>
        y_bins ! j \<le> y \<and> y < y_bins ! Suc j \<and>
        z_bins ! k \<le> z \<and> z < z_bins ! Suc k)"

definition grid_cell_step ::
  "(real \<times> real \<times> real) list \<Rightarrow> real list \<Rightarrow> real list \<Rightarrow> real list \<Rightarrow> nat \<times> nat \<times> nat
     \<Rightarrow> labels \<times> int \<Rightarrow> labels \<times> int" where
  "grid_cell_step positions x_bins y_bins z_bins cell st =
     (case st of (final_labels, label_counter) \<Rightarrow>
        let msk = map (in_cell x_bins y_bins z_bins cell) positions
        in if 0 < length (filter id msk)
           then (loc_assign msk label_counter final_labels, label_counter + 1)
           else (final_labels, label_counter))"

definition grid_voting :: "(real \<times> real \<times> real) list \<Rightarrow> labels" where
  "grid_voting positions =
     (let xs = map fst positions; ys = map (fst \<circ> snd) positions; zs = map (snd \<circ> snd) positions;
          x_bins = linspace (Min (set xs)) (Max (set xs)) 20;
          y_bins = linspace (Min (set ys)) (Max (set ys)) 20;
          z_bins = linspace (Min (set zs)) (Max (set zs)) 20;
          cells = concat (map (\<lambda>i. concat (map (\<lambda>j. map (\<lambda>k. (i, j, k)) [0..<19]) [0..<19])) [0..<19])
      in fst (fold (grid_cell_step positions x_bins y_bins z_bins) cells
                (replicate (length positions) 0, 0)))"

text \<open>
  More than 10000 poses: 5000 sampled indices, the function itself on the sample, and the
  label of the nearest sampled pose for every pose. The generator state is threaded
  through; exactly 5000 indices are used.
\<close>

function ensemble_clustering_final ::
  "sampling_lib \<Rightarrow> rng \<Rightarrow> (string \<times> labels) list \<Rightarrow> (real \<times> real \<times> real) list \<Rightarrow> real list
     \<Rightarrow> (error + labels) \<times> rng" where
  "ensemble_clustering_final lib g clusters_results positions energies =
     (if 10000 < length positions
      then
        (case random_choice lib g (length positions) 5000 of (drawn, g1) \<Rightarrow>
         case select_poses positions (take 5000 drawn) of
           Inl e \<Rightarrow> (Inl e, g1)
         | Inr sampled_positions \<Rightarrow>
         (case select_results clusters_results (take 5000 drawn) of
           Inl e \<Rightarrow> (Inl e, g1)
         | Inr sampled_results \<Rightarrow>
         (case select_poses energies (take 5000 drawn) of
           Inl e \<Rightarrow> (Inl e, g1)
         | Inr sampled_energies \<Rightarrow>
         (case ensemble_clustering_final lib g1 sampled_results sampled_positions sampled_energies of
            (Inl e, g2) \<Rightarrow> (Inl e, g2)
          | (Inr sampled_labels, g2) \<Rightarrow>
              (case select_poses sampled_labels (kneighbors lib sampled_positions positions) of
                 Inl e \<Rightarrow> (Inl e, g2)
               | Inr final_labels \<Rightarrow> (Inr final_labels, g2))))))
      else if length positions < 1000
      then (co_association_consensus lib clusters_results (length positions), g)
      else (Inr (grid_voting positions), g))"
  by pat_completeness auto
termination
proof (relation "measure (\<lambda>(lib, g, cr, positions, energies). if 10000 < length positions then 1 else 0)")
  show "wf (measure (\<lambda>(lib, g, cr, positions, energies).
              if 10000 < length (positions :: (real \<times> real \<times> real) list) then 1 else (0 :: nat)))"
    by simp
next
  fix lib :: sampling_lib and g :: rng and clusters_results :: "(string \<times> labels) list"
    and positions :: "(real \<times> real \<times> real) list" and energies :: "real list"
    and x :: "nat list \<times> rng" and drawn g1 sampled_positions sampled_results sampled_energies
  assume big: "10000 < length positions"
    and sel: "select_poses positions (take 5000 drawn) = Inr sampled_positions"
  have "length sampled_positions = length (take 5000 drawn)"
    using sel by (rule select_poses_length)
  then have "length sampled_positions \<le> 5000" by simp
  then show "((lib, g1, sampled_results, sampled_positions, sampled_energies),
              (lib, g, clusters_results, positions, energies))
        \<in> measure (\<lambda>(lib, g, cr, positions, energies). if 10000 < length positions then 1 else 0)"
    using big by simp
qed

text \<open>
  C5, as the code has it. With at most 10000 poses the consensus stage does not read the
  random generator: the final labels are the same in every generator state, and the state
  is left as it was. (\<^verbatim>\<open>_weighted_consensus_clustering\<close> of the modular code takes no
  generator at all.) Above 10000 poses the sample is drawn from the generator state of the
  process, for which the module sets no seed.
\<close>

theorem consensus_stage_ignores_generator:
  assumes "length positions \<le> 10000"
  shows "fst (ensemble_clustering_final lib g clusters_results positions energies)
           = fst (ensemble_clustering_final lib g' clusters_results positions energies) \<and>
         snd (ensemble_clustering_final lib g clusters_results positions energies) = g"
  using assms by (simp add: ensemble_clustering_final.simps)


text \<open>An example library.\<close>

definition example_sampling_lib :: sampling_lib where
  "example_sampling_lib =
     \<lparr> random_choice =
         (\<lambda>g n k. (map (\<lambda>i. (i + rng_pos g) mod n) [0..<k], g\<lparr>rng_pos := rng_pos g + k\<rparr>)),
       kneighbors =
         (\<lambda>samples ps.
            map (\<lambda>p. length (takeWhile (\<lambda>s. s \<noteq> arg_min_list (euclidean p) samples) samples)) ps),
       linkage_fcluster = (\<lambda>D t. Some (map (\<lambda>row. 1) D)) \<rparr>"

text \<open>Two poses, in two generator states.\<close>

theorem consensus_stage_ignores_generator_witness:
  "length [(0, 0, 0), (1, 1, 1) :: real \<times> real \<times> real] \<le> 10000 \<and>
   fst (ensemble_clustering_final example_sampling_lib (example_rng 0)
          [(''hierarchical'', [1, 2]), (''dbscan'', [0, 0]), (''energy_based'', [0, 1])]
          [(0, 0, 0), (1, 1, 1)] [- 1, - 2])
     = fst (ensemble_clustering_final example_sampling_lib (example_rng 7)
          [(''hierarchical'', [1, 2]), (''dbscan'', [0, 0]), (''energy_based'', [0, 1])]
          [(0, 0, 0), (1, 1, 1)] [- 1, - 2]) \<and>
   snd (ensemble_clustering_final example_sampling_lib (example_rng 0)
          [(''hierarchical'', [1, 2]), (''dbscan'', [0, 0]), (''energy_based'', [0, 1])]
          [(0, 0, 0), (1, 1, 1)] [- 1, - 2]) = example_rng 0"
proof -
  have small: "length [(0, 0, 0), (1, 1, 1) :: real \<times> real \<times> real] \<le> 10000" by simp
  from consensus_stage_ignores_generator[OF small, where lib = example_sampling_lib
      and g = "example_rng 0" and g' = "example_rng 7" and energies = "[- 1, - 2]"
      and clusters_results =
        "[(''hierarchical'', [1, 2]), (''dbscan'', [0, 0]), (''energy_based'', [0, 1])]"]
  show ?thesis using small by blast
qed

subsection \<open>What the consensus of fewer than 1000 poses returns\<close>




subsection \<open>The sampled branch depends on the generator state\<close>

text \<open>
  Indexing within range does not raise, so the branch for more than 10000 poses reduces
  to: draw, cluster the sample on the grid (the sample has 5000 poses, between 1000 and
  10000), and give every pose the label of its nearest sampled pose.
\<close>

lemma select_poses_in_range:
  "\<forall>i\<in>set idx. i < length xs \<Longrightarrow> select_poses xs idx = Inr (map ((!) xs) idx)"
  by (induction idx) (simp_all add: np_get_def)

lemma select_results_in_range:
  "\<forall>r\<in>set rs. \<forall>i\<in>set idx. i < length (snd r) \<Longrightarrow>
   select_results rs idx = Inr (map (\<lambda>r. (fst r, map ((!) (snd r)) idx)) rs)"
proof (induction rs)
  case Nil
  then show ?case by simp
next
  case (Cons r rs)
  obtain m ls where r: "r = (m, ls)" by (cases r)
  have "select_poses ls idx = Inr (map ((!) ls) idx)"
    using Cons.prems r by (intro select_poses_in_range) auto
  then show ?case using Cons r by simp
qed

lemma sampled_run:
  assumes big: "10000 < length P"
    and draw: "random_choice lib g (length P) 5000 = (drawn, g1)"
    and idx: "idx = take 5000 drawn"
    and inP: "\<forall>i\<in>set idx. i < length P"
    and inE: "\<forall>i\<in>set idx. i < length E"
    and inR: "\<forall>r\<in>set R. \<forall>i\<in>set idx. i < length (snd r)"
    and many: "1000 \<le> length idx"
  shows "ensemble_clustering_final lib g R P E =
           (case select_poses (grid_voting (map ((!) P) idx))
                   (kneighbors lib (map ((!) P) idx) P) of
              Inl e \<Rightarrow> (Inl e, g1)
            | Inr final_labels \<Rightarrow> (Inr final_labels, g1))"
proof -
  let ?S = "map ((!) P) idx"
  have len: "length ?S \<le> 5000" "1000 \<le> length ?S" using idx many by simp_all
  have inner: "ensemble_clustering_final lib g1
                 (map (\<lambda>r. (fst r, map ((!) (snd r)) idx)) R) ?S (map ((!) E) idx)
               = (Inr (grid_voting ?S), g1)"
    using len by (subst ensemble_clustering_final.simps) (simp del: ensemble_clustering_final.simps)
  have outer: "ensemble_clustering_final lib g R P E =
      (case ensemble_clustering_final lib g1
              (map (\<lambda>r. (fst r, map ((!) (snd r)) idx)) R) ?S (map ((!) E) idx) of
         (Inl e, g2) \<Rightarrow> (Inl e, g2)
       | (Inr sampled_labels, g2) \<Rightarrow>
           (case select_poses sampled_labels (kneighbors lib ?S P) of
              Inl e \<Rightarrow> (Inl e, g2)
            | Inr final_labels \<Rightarrow> (Inr final_labels, g2)))"
    using big draw idx[symmetric]
    by (subst ensemble_clustering_final.simps)
      (simp del: ensemble_clustering_final.simps
        add: select_poses_in_range[OF inP] select_poses_in_range[OF inE]
          select_results_in_range[OF inR])
  show ?thesis unfolding outer inner by simp
qed


text \<open>
  The grid loop: a cell that holds a position gives its positions the current counter and
  increments it; an empty cell changes nothing.
\<close>

lemma grid_cell_step_eq:
  "grid_cell_step S xb yb zb c (ls, k) =
     (if \<exists>p\<in>set S. in_cell xb yb zb c p
      then (loc_assign (map (in_cell xb yb zb c) S) k ls, k + 1)
      else (ls, k))"
  by (auto simp: grid_cell_step_def Let_def filter_empty_conv)

lemma grid_cell_step_label:
  assumes "length ls = length S" "q < length S"
  shows "fst (grid_cell_step S xb yb zb c (ls, k)) ! q
           = (if in_cell xb yb zb c (S ! q) then k else ls ! q) \<and>
         length (fst (grid_cell_step S xb yb zb c (ls, k))) = length S \<and>
         k \<le> snd (grid_cell_step S xb yb zb c (ls, k))"
proof (cases "\<exists>p\<in>set S. in_cell xb yb zb c p")
  case True
  then show ?thesis
    using assms by (simp add: grid_cell_step_eq nth_loc_assign length_loc_assign)
next
  case False
  then have "\<not> in_cell xb yb zb c (S ! q)" using assms(2) by simp
  then show ?thesis using False assms by (simp add: grid_cell_step_eq)
qed

lemma grid_fold_label_positive:
  assumes "length ls = length S" "q < length S" "1 \<le> k"
    and "1 \<le> ls ! q \<or> (\<exists>c\<in>set cs. in_cell xb yb zb c (S ! q))"
  shows "1 \<le> fst (fold (grid_cell_step S xb yb zb) cs (ls, k)) ! q"
  using assms
proof (induction cs arbitrary: ls k)
  case Nil
  then show ?case by simp
next
  case (Cons c cs)
  obtain ls' k' where st: "grid_cell_step S xb yb zb c (ls, k) = (ls', k')"
    by (cases "grid_cell_step S xb yb zb c (ls, k)")
  from grid_cell_step_label[OF Cons.prems(1,2), of xb yb zb c k] st
  have lab: "ls' ! q = (if in_cell xb yb zb c (S ! q) then k else ls ! q)"
    and len: "length ls' = length S" and cnt: "k \<le> k'" by simp_all
  have k': "1 \<le> k'" using cnt Cons.prems(3) by simp
  have "1 \<le> ls' ! q \<or> (\<exists>c\<in>set cs. in_cell xb yb zb c (S ! q))"
    using Cons.prems(3,4) lab by auto
  from Cons.IH[OF len Cons.prems(2) k' this] show ?case by (simp add: st)
qed

lemma grid_fold_unchanged:
  assumes "\<forall>c\<in>set cs. \<forall>p\<in>set S. \<not> in_cell xb yb zb c p"
  shows "fold (grid_cell_step S xb yb zb) cs st = st"
  using assms
proof (induction cs arbitrary: st)
  case Nil
  then show ?case by simp
next
  case (Cons c cs)
  have "grid_cell_step S xb yb zb c st = st"
    using Cons.prems by (cases st) (simp add: grid_cell_step_eq)
  then show ?case using Cons by simp
qed

lemma nth_linspace:
  "i < num \<Longrightarrow> linspace a b num ! i = a + real i * ((b - a) / real (num - 1))"
  by (simp add: linspace_def)

text \<open>
  The cells in the order of the three nested loops over \<^verbatim>\<open>range(len(bins) - 1)\<close>.
\<close>

definition grid_cells :: "(nat \<times> nat \<times> nat) list" where
  "grid_cells = concat (map (\<lambda>i. concat (map (\<lambda>j. map (\<lambda>k. (i, j, k)) [0..<19]) [0..<19])) [0..<19])"

lemma set_grid_cells: "set grid_cells = {(i, j, k). i < 19 \<and> j < 19 \<and> k < 19}"
  by (force simp: grid_cells_def)

lemma grid_cells_head: "\<exists>tl. grid_cells = (0, 0, 0) # tl"
proof -
  have e: "[0..<19::nat] = 0 # [Suc 0..<19]" by (rule upt_conv_Cons) simp
  show ?thesis unfolding grid_cells_def e by simp
qed

lemma grid_voting_cells:
  "grid_voting positions =
     fst (fold (grid_cell_step positions
                  (linspace (Min (set (map fst positions))) (Max (set (map fst positions))) 20)
                  (linspace (Min (set (map (fst \<circ> snd) positions)))
                     (Max (set (map (fst \<circ> snd) positions))) 20)
                  (linspace (Min (set (map (snd \<circ> snd) positions)))
                     (Max (set (map (snd \<circ> snd) positions))) 20))
            grid_cells (replicate (length positions) 0, 0))"
  by (simp add: grid_voting_def grid_cells_def Let_def)

lemma grid_voting_one_point:
  assumes "0 < n"
  shows "grid_voting (replicate n p) = replicate n 0"
proof -
  obtain x y z where p: "p = (x, y, z)" by (cases p)
  have "\<not> in_cell (linspace x x 20) (linspace y y 20) (linspace z z 20) c p"
    if "c \<in> set grid_cells" for c
  proof -
    obtain i j k where c: "c = (i, j, k)" by (cases c)
    then have "i < 19" using that by (simp add: set_grid_cells)
    then show ?thesis by (simp add: in_cell_def c p nth_linspace)
  qed
  then have "fold (grid_cell_step (replicate n p) (linspace x x 20) (linspace y y 20)
                (linspace z z 20)) grid_cells (replicate n 0, 0) = (replicate n 0, 0)"
    by (intro grid_fold_unchanged) auto
  then show ?thesis using assms by (simp add: grid_voting_cells p)
qed


text \<open>
  A library instance for a concrete run. \<^verbatim>\<open>np.random.choice\<close> draws, without replacement,
  the window of 5000 indices that starts at twice the position of the generator;
  \<^verbatim>\<open>kneighbors\<close> is the true nearest neighbour (the first sampled position at minimal
  Euclidean distance). The input has 10001 poses: one at \<open>(1, 1, 1)\<close>, one at
  \<open>(1/2, 1/2, 1/2)\<close> and 9999 at the origin.
\<close>

definition window_lib :: sampling_lib where
  "window_lib =
     \<lparr> random_choice =
         (\<lambda>g n k. (map (\<lambda>i. i + 2 * rng_pos g) [0..<k], g\<lparr>rng_pos := Suc (rng_pos g)\<rparr>)),
       kneighbors =
         (\<lambda>samples ps.
            map (\<lambda>p. length (takeWhile (\<lambda>s. s \<noteq> arg_min_list (euclidean p) samples) samples)) ps),
       linkage_fcluster = (\<lambda>D t. None) \<rparr>"

definition big_positions :: "(real \<times> real \<times> real) list" where
  "big_positions = [(1, 1, 1), (1 / 2, 1 / 2, 1 / 2)] @ replicate 9999 (0, 0, 0)"

definition big_results :: "(string \<times> labels) list" where
  "big_results =
     [(''hierarchical'', replicate 10001 0), (''dbscan'', replicate 10001 0),
      (''energy_based'', replicate 10001 0)]"

definition big_energies :: "real list" where
  "big_energies = replicate 10001 (- 1)"

lemma length_grid_fold:
  "length ls = length S \<Longrightarrow> length (fst (fold (grid_cell_step S xb yb zb) cs (ls, k))) = length S"
proof (induction cs arbitrary: ls k)
  case Nil
  then show ?case by simp
next
  case (Cons c cs)
  obtain ls' k' where st: "grid_cell_step S xb yb zb c (ls, k) = (ls', k')"
    by (cases "grid_cell_step S xb yb zb c (ls, k)")
  have "length ls' = length S"
    using st Cons.prems by (auto simp: grid_cell_step_eq length_loc_assign split: if_splits)
  from Cons.IH[OF this] show ?case by (simp add: st)
qed

lemma length_grid_voting: "length (grid_voting ps) = length ps"
  unfolding grid_voting_cells by (rule length_grid_fold) simp

lemma arg_min_list_replicate: "arg_min_list f (replicate (Suc n) a) = a"
  by (induction n) (simp_all add: Let_def)

lemma euclidean_zero_iff: "euclidean u v = 0 \<longleftrightarrow> u = v"
proof -
  obtain x1 y1 z1 where u: "u = (x1, y1, z1)" by (cases u)
  obtain x2 y2 z2 where v: "v = (x2, y2, z2)" by (cases v)
  have "(x1 - x2)\<^sup>2 + (y1 - y2)\<^sup>2 + (z1 - z2)\<^sup>2 = 0 \<longleftrightarrow> x1 = x2 \<and> y1 = y2 \<and> z1 = z2"
    by (simp add: sum_power2_eq_zero_iff add_nonneg_eq_0_iff)
  then show ?thesis by (simp add: euclidean_def u v)
qed

lemma euclidean_nonneg: "0 \<le> euclidean u v"
  by (cases u; cases v) (simp add: euclidean_def)

lemma nearest_is_itself:
  assumes "p \<in> set samples"
  shows "arg_min_list (euclidean p) samples = p"
proof -
  have ne: "samples \<noteq> []" using assms by auto
  have "Min (euclidean p ` set samples) = 0"
  proof (rule Min_eqI)
    show "finite (euclidean p ` set samples)" by simp
    show "0 \<le> y" if "y \<in> euclidean p ` set samples" for y
    proof -
      from that obtain s where "y = euclidean p s" by blast
      then show ?thesis by (simp add: euclidean_nonneg)
    qed
    show "0 \<in> euclidean p ` set samples"
      using assms euclidean_zero_iff[of p p] by (metis imageI)
  qed
  then have "euclidean p (arg_min_list (euclidean p) samples) = 0"
    using f_arg_min_list_f[OF ne, of "euclidean p"] by simp
  then show ?thesis by (simp add: euclidean_zero_iff)
qed

lemma kneighbors_in_range:
  assumes "samples \<noteq> []"
  shows "\<forall>i\<in>set (kneighbors window_lib samples ps). i < length samples"
proof -
  have "length (takeWhile (\<lambda>s. s \<noteq> arg_min_list (euclidean p) samples) samples) < length samples"
    for p
  proof -
    let ?m = "arg_min_list (euclidean p) samples"
    have "?m \<in> set samples" using assms by (rule arg_min_list_in)
    then have "dropWhile (\<lambda>s. s \<noteq> ?m) samples \<noteq> []" by (auto simp: dropWhile_eq_Nil_conv)
    moreover have "length (takeWhile (\<lambda>s. s \<noteq> ?m) samples)
        + length (dropWhile (\<lambda>s. s \<noteq> ?m) samples) = length samples"
      by (metis length_append takeWhile_dropWhile_id)
    ultimately show ?thesis by (cases "dropWhile (\<lambda>s. s \<noteq> ?m) samples") auto
  qed
  then show ?thesis by (auto simp: window_lib_def)
qed


lemma length_big_positions: "length big_positions = 10001"
  by (simp add: big_positions_def)

lemma window_draw:
  "random_choice window_lib (example_rng k) n 5000
     = (map (\<lambda>i. i + 2 * k) [0..<5000], example_rng (Suc k))"
  by (simp add: window_lib_def example_rng_def)

lemma sample_with_all_kinds:
  "map ((!) big_positions) (map (\<lambda>i. i + 2 * 0) [0..<5000])
     = [(1, 1, 1), (1 / 2, 1 / 2, 1 / 2)] @ replicate 4998 (0, 0, 0)"
proof (rule nth_equalityI)
  show "length (map ((!) big_positions) (map (\<lambda>i. i + 2 * 0) [0..<5000]))
          = length ([(1, 1, 1), (1 / 2, 1 / 2, 1 / 2)] @ replicate 4998 (0 :: real, 0 :: real, 0 :: real))"
    by simp
next
  fix i assume "i < length (map ((!) big_positions) (map (\<lambda>i. i + 2 * 0) [0..<5000]))"
  then have i: "i < 5000" by simp
  then show "map ((!) big_positions) (map (\<lambda>i. i + 2 * 0) [0..<5000]) ! i
          = ([(1, 1, 1), (1 / 2, 1 / 2, 1 / 2)] @ replicate 4998 (0, 0, 0)) ! i"
    by (auto simp: big_positions_def nth_Cons')
qed

lemma sample_of_one_kind:
  "map ((!) big_positions) (map (\<lambda>i. i + 2 * 1) [0..<5000]) = replicate 5000 (0, 0, 0)"
proof (rule nth_equalityI)
  show "length (map ((!) big_positions) (map (\<lambda>i. i + 2 * 1) [0..<5000]))
          = length (replicate 5000 (0 :: real, 0 :: real, 0 :: real))"
    by simp
next
  fix i assume "i < length (map ((!) big_positions) (map (\<lambda>i. i + 2 * 1) [0..<5000]))"
  then have i: "i < 5000" by simp
  then show "map ((!) big_positions) (map (\<lambda>i. i + 2 * 1) [0..<5000]) ! i
          = replicate 5000 (0, 0, 0) ! i"
    by (simp add: big_positions_def nth_append)
qed

lemma big_run:
  assumes "k \<le> 1"
  shows "ensemble_clustering_final window_lib (example_rng k) big_results big_positions big_energies
      = (case select_poses
                (grid_voting (map ((!) big_positions) (map (\<lambda>i. i + 2 * k) [0..<5000])))
                (kneighbors window_lib
                   (map ((!) big_positions) (map (\<lambda>i. i + 2 * k) [0..<5000])) big_positions) of
           Inl e \<Rightarrow> (Inl e, example_rng (Suc k))
         | Inr final_labels \<Rightarrow> (Inr final_labels, example_rng (Suc k)))"
proof (rule sampled_run[where drawn = "map (\<lambda>i. i + 2 * k) [0..<5000]"])
  show "10000 < length big_positions" by (simp add: length_big_positions)
  show "random_choice window_lib (example_rng k) (length big_positions) 5000
          = (map (\<lambda>i. i + 2 * k) [0..<5000], example_rng (Suc k))"
    by (rule window_draw)
  show "map (\<lambda>i. i + 2 * k) [0..<5000] = take 5000 (map (\<lambda>i. i + 2 * k) [0..<5000])" by simp
  show "\<forall>i\<in>set (map (\<lambda>i. i + 2 * k) [0..<5000]). i < length big_positions"
    using assms by (auto simp: length_big_positions)
  show "\<forall>i\<in>set (map (\<lambda>i. i + 2 * k) [0..<5000]). i < length big_energies"
    using assms by (auto simp: big_energies_def)
  show "\<forall>r\<in>set big_results. \<forall>i\<in>set (map (\<lambda>i. i + 2 * k) [0..<5000]). i < length (snd r)"
    using assms by (auto simp: big_results_def)
  show "1000 \<le> length (map (\<lambda>i. i + 2 * k) [0..<5000])" by simp
qed

text \<open>
  In generator state 1 the sample holds poses at the origin only: the grid has a single
  point, no cell is non-empty (the bins are degenerate), and every pose keeps label 0.
\<close>

lemma run_with_one_kind:
  "\<exists>l g'. ensemble_clustering_final window_lib (example_rng 1) big_results big_positions big_energies
             = (Inr l, g') \<and> l ! 1 = 0"
proof -
  let ?S = "replicate 5000 (0 :: real, 0 :: real, 0 :: real)"
  let ?l = "map ((!) (replicate 5000 (0 :: int))) (map (\<lambda>p. 0) big_positions)"
  have nn: "kneighbors window_lib ?S big_positions = map (\<lambda>p. 0) big_positions"
  proof -
    have r: "?S = replicate (Suc 4999) (0, 0, 0)" by simp
    have "arg_min_list (euclidean p) ?S = (0, 0, 0)" for p
      unfolding r by (rule arg_min_list_replicate)
    then show ?thesis by (simp add: window_lib_def)
  qed
  have gv: "grid_voting ?S = replicate 5000 0" by (rule grid_voting_one_point) simp
  have sel: "select_poses (replicate 5000 (0 :: int)) (map (\<lambda>p. 0) big_positions) = Inr ?l"
    by (rule select_poses_in_range) simp
  have one: "(1 :: nat) \<le> 1" by simp
  have run: "ensemble_clustering_final window_lib (example_rng 1) big_results big_positions big_energies
               = (Inr ?l, example_rng (Suc 1))"
    unfolding big_run[OF one] sample_of_one_kind gv nn sel by simp
  have "?l ! 1 = 0" by (simp add: length_big_positions)
  with run show ?thesis by blast
qed


text \<open>
  In generator state 0 the sample holds all three kinds of pose. The bins are
  \<^verbatim>\<open>linspace(0, 1, 20)\<close>; the first cell holds the origin, so the counter is 1 when the
  loop reaches cell \<open>(9, 9, 9)\<close>, which holds \<open>(1/2, 1/2, 1/2)\<close>: that pose gets a
  label of at least 1.
\<close>

lemma grid_voting_mixed_sample:
  "1 \<le> grid_voting ([(1, 1, 1), (1 / 2, 1 / 2, 1 / 2)] @ replicate 4998 (0, 0, 0)) ! 1"
proof -
  let ?S = "[(1, 1, 1), (1 / 2, 1 / 2, 1 / 2)] @ replicate 4998 (0 :: real, 0 :: real, 0 :: real)"
  let ?b = "linspace 0 1 20"
  have bins: "Min (set (map fst ?S)) = 0" "Max (set (map fst ?S)) = 1"
    "Min (set (map (fst \<circ> snd) ?S)) = 0" "Max (set (map (fst \<circ> snd) ?S)) = 1"
    "Min (set (map (snd \<circ> snd) ?S)) = 0" "Max (set (map (snd \<circ> snd) ?S)) = 1"
    by simp_all
  have gv: "grid_voting ?S
              = fst (fold (grid_cell_step ?S ?b ?b ?b) grid_cells (replicate (length ?S) 0, 0))"
    unfolding grid_voting_cells bins by (rule refl)
  obtain tl where cells: "grid_cells = (0, 0, 0) # tl" using grid_cells_head by blast
  have "(9, 9, 9) \<in> set grid_cells" by (simp add: set_grid_cells)
  then have nine: "(9, 9, 9) \<in> set tl" by (simp add: cells)
  have first: "\<exists>p\<in>set ?S. in_cell ?b ?b ?b (0, 0, 0) p"
  proof
    show "(0, 0, 0) \<in> set ?S" by simp
    show "in_cell ?b ?b ?b (0, 0, 0) (0, 0, 0)" by (simp add: in_cell_def nth_linspace)
  qed
  have mid: "in_cell ?b ?b ?b (9, 9, 9) (?S ! 1)"
    by (simp add: in_cell_def nth_linspace)
  let ?ls = "loc_assign (map (in_cell ?b ?b ?b (0, 0, 0)) ?S) 0 (replicate (length ?S) 0)"
  have step: "grid_cell_step ?S ?b ?b ?b (0, 0, 0) (replicate (length ?S) 0, 0) = (?ls, 1)"
    using first by (simp only: grid_cell_step_eq if_True) simp
  have len: "length ?ls = length ?S" by (simp add: length_loc_assign)
  have q: "1 < length ?S" by simp
  have k: "(1 :: int) \<le> 1" by simp
  have ex: "1 \<le> ?ls ! 1 \<or> (\<exists>c\<in>set tl. in_cell ?b ?b ?b c (?S ! 1))"
    using nine mid by blast
  have "1 \<le> fst (fold (grid_cell_step ?S ?b ?b ?b) tl (?ls, 1)) ! 1"
    by (rule grid_fold_label_positive[OF len q k ex])
  then show ?thesis unfolding gv cells by (simp only: fold_simps step)
qed

lemma run_with_all_kinds:
  "\<exists>l g'. ensemble_clustering_final window_lib (example_rng 0) big_results big_positions big_energies
             = (Inr l, g') \<and> 1 \<le> l ! 1"
proof -
  let ?S = "[(1, 1, 1), (1 / 2, 1 / 2, 1 / 2)] @ replicate 4998 (0 :: real, 0 :: real, 0 :: real)"
  let ?nn = "kneighbors window_lib ?S big_positions"
  let ?l = "map ((!) (grid_voting ?S)) ?nn"
  have ne: "?S \<noteq> []" by simp
  have "\<forall>i\<in>set ?nn. i < length ?S" by (rule kneighbors_in_range[OF ne])
  then have "\<forall>i\<in>set ?nn. i < length (grid_voting ?S)" by (simp only: length_grid_voting)
  then have sel: "select_poses (grid_voting ?S) ?nn = Inr ?l" by (rule select_poses_in_range)
  have zero: "(0 :: nat) \<le> 1" by simp
  have run: "ensemble_clustering_final window_lib (example_rng 0) big_results big_positions big_energies
               = (Inr ?l, example_rng (Suc 0))"
    unfolding big_run[OF zero] sample_with_all_kinds sel by simp
  have "arg_min_list (euclidean (1 / 2, 1 / 2, 1 / 2)) ?S = (1 / 2, 1 / 2, 1 / 2)"
    by (rule nearest_is_itself) simp
  then have nn1: "?nn ! 1 = 1"
    by (simp add: window_lib_def length_big_positions big_positions_def)
  have "length ?nn = length big_positions" by (simp add: window_lib_def)
  then have "?l ! 1 = grid_voting ?S ! (?nn ! 1)" by (simp add: length_big_positions)
  then have "1 \<le> ?l ! 1" using grid_voting_mixed_sample by (simp only: nn1)
  with run show ?thesis by blast
qed

text \<open>
  C5, as stated, fails: on identical inputs of 10001 poses, two states of the (unseeded)
  generator give different final labels. Pose 1 is labelled 0 in one run and at least 1
  in the other.
\<close>

theorem sampled_labels_depend_on_generator:
  "fst (ensemble_clustering_final window_lib (example_rng 0) big_results big_positions big_energies)
     \<noteq> fst (ensemble_clustering_final window_lib (example_rng 1) big_results big_positions
              big_energies)"
proof -
  obtain l0 g0 where r0: "ensemble_clustering_final window_lib (example_rng 0) big_results
      big_positions big_energies = (Inr l0, g0)" and p0: "1 \<le> l0 ! 1"
    using run_with_all_kinds by blast
  obtain l1 g1 where r1: "ensemble_clustering_final window_lib (example_rng 1) big_results
      big_positions big_energies = (Inr l1, g1)" and p1: "l1 ! 1 = 0"
    using run_with_one_kind by blast
  have "l0 \<noteq> l1" using p0 p1 by auto
  then show ?thesis by (simp only: r0 r1 fst_conv sum.inject) simp
qed

section \<open>The final grouping, in both implementations\<close>








end
